theory Spec2Isabelle
  imports Main "HOL-Library.Word"
begin

unbundle bit_operations_syntax

section \<open>Types and constants of the headers\<close>

text \<open>
  The model follows \<^verbatim>\<open>Source/PLCrashAsyncDwarfPrivate.c\<close>. Addresses and sizes
  (\<^verbatim>\<open>pl_vm_address_t\<close>, \<^verbatim>\<open>pl_vm_size_t\<close>, \<^verbatim>\<open>uint64_t\<close>) are 64-bit words; an
  \<^verbatim>\<open>int64_t\<close> is kept as its 64-bit pattern and read with \<open>sint\<close>. The byte offset
  \<^verbatim>\<open>pl_vm_off_t offset\<close> of the LEB128 loops starts at 0 and grows by one per byte for at
  most ten bytes, so it is an \<open>int\<close>; the loop counter \<^verbatim>\<open>unsigned int shift\<close> starts at 0
  and never exceeds 70, so it is a \<open>nat\<close>.
\<close>

type_synonym pl_vm_address_t = "64 word"
type_synonym pl_vm_size_t = "64 word"
type_synonym pl_vm_off_t = int

text \<open>The return codes the file uses.\<close>

datatype plcrash_error_t =
  PLCRASH_ESUCCESS | PLCRASH_ENOTFOUND | PLCRASH_ENOTSUP | PLCRASH_EINVAL

text \<open>
  The macros \<^verbatim>\<open>PL_VM_ADDRESS_INVALID\<close>, \<^verbatim>\<open>PL_VM_ADDRESS_MAX\<close>, \<^verbatim>\<open>PL_VM_OFF_MAX\<close> and
  \<^verbatim>\<open>PL_VM_OFF_MIN\<close> are declared in a header that is not part of the sources at hand;
  they are parameters of the model. \<open>mach_vm_limits\<close> is the instance of a 64-bit
  Mach target, used for concrete evaluation only.
\<close>

record pl_vm_limits =
  PL_VM_ADDRESS_INVALID :: pl_vm_address_t
  PL_VM_ADDRESS_MAX :: int
  PL_VM_OFF_MAX :: int
  PL_VM_OFF_MIN :: int

definition mach_vm_limits :: pl_vm_limits where
  "mach_vm_limits =
     \<lparr>PL_VM_ADDRESS_INVALID = - 1,
      PL_VM_ADDRESS_MAX = 18446744073709551615,
      PL_VM_OFF_MAX = 9223372036854775807,
      PL_VM_OFF_MIN = - 9223372036854775808\<rparr>"

text \<open>
  Modelled from the spec: the enumeration \<^verbatim>\<open>DW_EH_PE_t\<close> is declared in
  \<^verbatim>\<open>PLCrashAsyncDwarfPrivate.h\<close>, which is missing. The spec names the encodings, the
  masks 0x70 (base class) and 0x0F (representation) and the indirect flag; the numeric
  values are those of the Linux Standard Base Core Specification 4.1, section 10.5,
  the format the source's documentation comment refers to.
\<close>

type_synonym DW_EH_PE_t = "8 word"

definition DW_EH_PE_absptr :: DW_EH_PE_t where "DW_EH_PE_absptr = 0x00"
definition DW_EH_PE_uleb128 :: DW_EH_PE_t where "DW_EH_PE_uleb128 = 0x01"
definition DW_EH_PE_udata2 :: DW_EH_PE_t where "DW_EH_PE_udata2 = 0x02"
definition DW_EH_PE_udata4 :: DW_EH_PE_t where "DW_EH_PE_udata4 = 0x03"
definition DW_EH_PE_udata8 :: DW_EH_PE_t where "DW_EH_PE_udata8 = 0x04"
definition DW_EH_PE_sleb128 :: DW_EH_PE_t where "DW_EH_PE_sleb128 = 0x09"
definition DW_EH_PE_sdata2 :: DW_EH_PE_t where "DW_EH_PE_sdata2 = 0x0a"
definition DW_EH_PE_sdata4 :: DW_EH_PE_t where "DW_EH_PE_sdata4 = 0x0b"
definition DW_EH_PE_sdata8 :: DW_EH_PE_t where "DW_EH_PE_sdata8 = 0x0c"
definition DW_EH_PE_pcrel :: DW_EH_PE_t where "DW_EH_PE_pcrel = 0x10"
definition DW_EH_PE_textrel :: DW_EH_PE_t where "DW_EH_PE_textrel = 0x20"
definition DW_EH_PE_datarel :: DW_EH_PE_t where "DW_EH_PE_datarel = 0x30"
definition DW_EH_PE_funcrel :: DW_EH_PE_t where "DW_EH_PE_funcrel = 0x40"
definition DW_EH_PE_aligned :: DW_EH_PE_t where "DW_EH_PE_aligned = 0x50"
definition DW_EH_PE_indirect :: DW_EH_PE_t where "DW_EH_PE_indirect = 0x80"
definition DW_EH_PE_omit :: DW_EH_PE_t where "DW_EH_PE_omit = 0xff"

section \<open>The memory object and the byte order table\<close>

text \<open>
  Modelled from the spec: \<^verbatim>\<open>plcrash_async_mobject_t\<close> and
  \<^verbatim>\<open>plcrash_async_mobject_remap_address\<close> live in a file that is missing. The spec
  (sections 3 and 6) describes a read-only byte range anchored at a task-relative base
  address, and \<^verbatim>\<open>remap(base_address, offset, length)\<close> as returning a view of exactly
  \<open>length\<close> bytes starting at \<open>base_address + offset\<close> if and only if that entire range
  lies within the mapped region, and unavailable (\<^verbatim>\<open>NULL\<close>) otherwise. The view is the
  list of the bytes it covers.
\<close>

record plcrash_async_mobject_t =
  task_address :: pl_vm_address_t
  mapped :: "8 word list"

definition plcrash_async_mobject_remap_address ::
  "plcrash_async_mobject_t \<Rightarrow> pl_vm_address_t \<Rightarrow> pl_vm_off_t \<Rightarrow> nat \<Rightarrow> 8 word list option" where
  "plcrash_async_mobject_remap_address mobj address offset len =
     (let first = uint address + offset;
          start = uint (task_address mobj)
      in if start \<le> first \<and> first + int len \<le> start + int (length (mapped mobj))
         then Some (take len (drop (nat (first - start)) (mapped mobj)))
         else None)"

text \<open>
  Every call of \<^verbatim>\<open>plcrash_async_mobject_remap_address\<close> is a read request to the
  mapping. The decoders return the requests they made, in order, next to their C outputs.
\<close>

type_synonym remap_request = "pl_vm_address_t \<times> pl_vm_off_t \<times> nat"

text \<open>
  Modelled from the spec: \<^verbatim>\<open>plcrash_async_byteorder_t\<close> is declared in a missing
  header; the spec (section 6) describes a table of the functions \<^verbatim>\<open>swap16\<close>,
  \<^verbatim>\<open>swap32\<close> and \<^verbatim>\<open>swap64\<close>.
\<close>

record plcrash_async_byteorder_t =
  swap16 :: "16 word \<Rightarrow> 16 word"
  swap32 :: "32 word \<Rightarrow> 32 word"
  swap64 :: "64 word \<Rightarrow> 64 word"

text \<open>
  Dereferencing the remapped pointer as \<^verbatim>\<open>uint8_t\<close>, \<^verbatim>\<open>uint16_t\<close>, \<^verbatim>\<open>uint32_t\<close> or
  \<^verbatim>\<open>uint64_t\<close> loads the bytes in the byte order of the host, which is little-endian on
  the targets of the library.
\<close>

definition load_u8 :: "8 word list \<Rightarrow> 8 word" where
  "load_u8 p = hd p"

definition load_le :: "nat \<Rightarrow> 8 word list \<Rightarrow> 'a::len word" where
  "load_le n p = foldr (\<lambda>b w. ucast b OR push_bit 8 w) (take n p) 0"

text \<open>
  Modelled from the spec: \<^verbatim>\<open>plcrash_async_mobject_read_uint16\<close>, \<^verbatim>\<open>_uint32\<close> and
  \<^verbatim>\<open>_uint64\<close> are defined in the missing memory-object file. By section 4.1 of the spec
  a fixed-width read performs exactly one bounds-checked remap of the width, applies the
  swap function of that width, and by section 4.3 its unavailability is the
  "invalid data" failure.
\<close>

definition plcrash_async_mobject_read_uint16 ::
  "plcrash_async_mobject_t \<Rightarrow> plcrash_async_byteorder_t \<Rightarrow> pl_vm_address_t \<Rightarrow> pl_vm_off_t
     \<Rightarrow> plcrash_error_t + 16 word" where
  "plcrash_async_mobject_read_uint16 mobj byteorder base_addr offset =
     (case plcrash_async_mobject_remap_address mobj base_addr offset 2 of
        None \<Rightarrow> Inl PLCRASH_EINVAL
      | Some input \<Rightarrow> Inr (swap16 byteorder (load_le 2 input)))"

definition plcrash_async_mobject_read_uint32 ::
  "plcrash_async_mobject_t \<Rightarrow> plcrash_async_byteorder_t \<Rightarrow> pl_vm_address_t \<Rightarrow> pl_vm_off_t
     \<Rightarrow> plcrash_error_t + 32 word" where
  "plcrash_async_mobject_read_uint32 mobj byteorder base_addr offset =
     (case plcrash_async_mobject_remap_address mobj base_addr offset 4 of
        None \<Rightarrow> Inl PLCRASH_EINVAL
      | Some input \<Rightarrow> Inr (swap32 byteorder (load_le 4 input)))"

definition plcrash_async_mobject_read_uint64 ::
  "plcrash_async_mobject_t \<Rightarrow> plcrash_async_byteorder_t \<Rightarrow> pl_vm_address_t \<Rightarrow> pl_vm_off_t
     \<Rightarrow> plcrash_error_t + 64 word" where
  "plcrash_async_mobject_read_uint64 mobj byteorder base_addr offset =
     (case plcrash_async_mobject_remap_address mobj base_addr offset 8 of
        None \<Rightarrow> Inl PLCRASH_EINVAL
      | Some input \<Rightarrow> Inr (swap64 byteorder (load_le 8 input)))"

section \<open>Outputs of a decoder\<close>

text \<open>
  The decoders return a \<^verbatim>\<open>plcrash_error_t\<close> and write through the pointers \<^verbatim>\<open>result\<close>
  and \<^verbatim>\<open>size\<close>. A call takes the contents the two cells had before the call and returns
  the contents they have on return, so that a cell the call never assigns keeps its
  earlier content.
\<close>

record decoded =
  out_ret :: plcrash_error_t
  out_result :: "64 word"
  out_size :: pl_vm_size_t
  out_reads :: "remap_request list"

section \<open>\<^verbatim>\<open>pl_dwarf_read_umax64\<close> (lines 440-478)\<close>

text \<open>\<open>None\<close> is the return value \<^verbatim>\<open>false\<close>; \<open>Some v\<close> is \<^verbatim>\<open>true\<close> with \<^verbatim>\<open>*dest = v\<close>.\<close>

definition pl_dwarf_read_umax64 ::
  "plcrash_async_mobject_t \<Rightarrow> plcrash_async_byteorder_t \<Rightarrow> pl_vm_address_t \<Rightarrow> pl_vm_off_t
     \<Rightarrow> pl_vm_size_t \<Rightarrow> 64 word option" where
  "pl_dwarf_read_umax64 mobj byteorder base_addr offset data_size =
     (case plcrash_async_mobject_remap_address mobj base_addr offset (unat data_size) of
        None \<Rightarrow> None
      | Some data \<Rightarrow>
          if data_size = 1 then Some (ucast (load_u8 data))
          else if data_size = 2 then Some (ucast (swap16 byteorder (load_le 2 data)))
          else if data_size = 4 then Some (ucast (swap32 byteorder (load_le 4 data)))
          else if data_size = 8 then Some (swap64 byteorder (load_le 8 data))
          else None)"

section \<open>\<^verbatim>\<open>plcrash_async_dwarf_read_uleb128\<close> (lines 344-378)\<close>

text \<open>
  The \<^verbatim>\<open>while\<close> loop with the code after it. The arguments \<open>shift\<close>, \<open>offset\<close> and
  \<open>result\<close> are the loop's variables at the loop head, \<open>size0\<close> is the content of
  \<^verbatim>\<open>*size\<close> before the call, \<open>rd\<close> the requests made so far. The loop condition
  failing is \<^verbatim>\<open>p == NULL\<close> after the loop; \<^verbatim>\<open>break\<close> leaves with \<^verbatim>\<open>p != NULL\<close>.
\<close>

function uleb128_loop ::
  "plcrash_async_mobject_t \<Rightarrow> pl_vm_address_t \<Rightarrow> pl_vm_size_t \<Rightarrow> nat \<Rightarrow> pl_vm_off_t \<Rightarrow> 64 word
     \<Rightarrow> remap_request list \<Rightarrow> decoded" where
  "uleb128_loop mobj location size0 shift offset result rd =
     (case plcrash_async_mobject_remap_address mobj location offset 1 of
        None \<Rightarrow>
          \<lparr>out_ret = PLCRASH_EINVAL, out_result = result, out_size = size0,
           out_reads = rd @ [(location, offset, 1)]\<rparr>
      | Some p \<Rightarrow>
          (let byte = load_u8 p;
               result' = result OR push_bit shift (ucast (byte AND 0x7f));
               shift' = shift + 7;
               offset' = offset + 1;
               rd' = rd @ [(location, offset, 1)]
           in if byte AND 0x80 = 0
              then \<lparr>out_ret = PLCRASH_ESUCCESS, out_result = result',
                    out_size = word_of_int offset', out_reads = rd'\<rparr>
              else if shift' \<ge> 64
              then \<lparr>out_ret = PLCRASH_ENOTSUP, out_result = result', out_size = size0,
                    out_reads = rd'\<rparr>
              else uleb128_loop mobj location size0 shift' offset' result' rd'))"
  by pat_completeness auto
termination
  by (relation "measure (\<lambda>(mobj, location, size0, shift, offset, result, rd). 64 - shift)") auto

definition plcrash_async_dwarf_read_uleb128 ::
  "plcrash_async_mobject_t \<Rightarrow> pl_vm_address_t \<Rightarrow> pl_vm_size_t \<Rightarrow> decoded" where
  "plcrash_async_dwarf_read_uleb128 mobj location size0 =
     uleb128_loop mobj location size0 0 0 0 []"

section \<open>\<^verbatim>\<open>plcrash_async_dwarf_read_sleb128\<close> (lines 388-426)\<close>

text \<open>
  The same loop; on \<^verbatim>\<open>break\<close> the code after the loop tests \<^verbatim>\<open>shift < 64\<close> and bit 0x40
  of \<^verbatim>\<open>*p\<close>, the byte fetched last, and ORs \<^verbatim>\<open>-(1ULL << shift)\<close> into the result.
\<close>

function sleb128_loop ::
  "plcrash_async_mobject_t \<Rightarrow> pl_vm_address_t \<Rightarrow> pl_vm_size_t \<Rightarrow> nat \<Rightarrow> pl_vm_off_t \<Rightarrow> 64 word
     \<Rightarrow> remap_request list \<Rightarrow> decoded" where
  "sleb128_loop mobj location size0 shift offset result rd =
     (case plcrash_async_mobject_remap_address mobj location offset 1 of
        None \<Rightarrow>
          \<lparr>out_ret = PLCRASH_EINVAL, out_result = result, out_size = size0,
           out_reads = rd @ [(location, offset, 1)]\<rparr>
      | Some p \<Rightarrow>
          (let byte = load_u8 p;
               result' = result OR push_bit shift (ucast (byte AND 0x7f));
               shift' = shift + 7;
               offset' = offset + 1;
               rd' = rd @ [(location, offset, 1)]
           in if byte AND 0x80 = 0
              then \<lparr>out_ret = PLCRASH_ESUCCESS,
                    out_result =
                      (if shift' < 64 \<and> load_u8 p AND 0x40 \<noteq> 0
                       then result' OR - push_bit shift' 1 else result'),
                    out_size = word_of_int offset', out_reads = rd'\<rparr>
              else if shift' \<ge> 64
              then \<lparr>out_ret = PLCRASH_ENOTSUP, out_result = result', out_size = size0,
                    out_reads = rd'\<rparr>
              else sleb128_loop mobj location size0 shift' offset' result' rd'))"
  by pat_completeness auto
termination
  by (relation "measure (\<lambda>(mobj, location, size0, shift, offset, result, rd). 64 - shift)") auto

definition plcrash_async_dwarf_read_sleb128 ::
  "plcrash_async_mobject_t \<Rightarrow> pl_vm_address_t \<Rightarrow> pl_vm_size_t \<Rightarrow> decoded" where
  "plcrash_async_dwarf_read_sleb128 mobj location size0 =
     sleb128_loop mobj location size0 0 0 0 []"

section \<open>The pointer-base state (lines 66-91)\<close>

text \<open>
  The fields \<^verbatim>\<open>plcrash_async_dwarf_gnueh_ptr_state_init\<close> assigns; the structure is
  declared in the missing header.
\<close>

record plcrash_async_dwarf_gnueh_ptr_state_t =
  address_size :: pl_vm_address_t
  frame_section_base :: pl_vm_address_t
  frame_section_vm_addr :: pl_vm_address_t
  pc_rel_base :: pl_vm_address_t
  text_base :: pl_vm_address_t
  data_base :: pl_vm_address_t
  func_base :: pl_vm_address_t

section \<open>\<^verbatim>\<open>plcrash_async_dwarf_read_gnueh_ptr\<close> (lines 109-334)\<close>

text \<open>
  A call either returns or stops in \<^verbatim>\<open>PLCF_ASSERT\<close> (line 182).
\<close>

datatype 'a completion = Assert_failed | Return 'a

text \<open>
  The first \<^verbatim>\<open>switch\<close> (lines 129-201), on \<^verbatim>\<open>encoding & 0x70\<close>: it returns early,
  fails the assertion, or goes on with \<^verbatim>\<open>base\<close>, the new \<^verbatim>\<open>location\<close> and the new
  \<^verbatim>\<open>*size\<close>.
\<close>

datatype base_switch =
  Base_return plcrash_error_t
  | Base_assert_failed
  | Base_break pl_vm_address_t pl_vm_address_t pl_vm_size_t

definition gnueh_ptr_base ::
  "pl_vm_limits \<Rightarrow> pl_vm_address_t \<Rightarrow> DW_EH_PE_t \<Rightarrow> plcrash_async_dwarf_gnueh_ptr_state_t
     \<Rightarrow> base_switch" where
  "gnueh_ptr_base lim location encoding state =
     (let sel = encoding AND 0x70 in
      if sel = DW_EH_PE_pcrel then
        (if pc_rel_base state = PL_VM_ADDRESS_INVALID lim then Base_return PLCRASH_ENOTSUP
         else Base_break (pc_rel_base state) location 0)
      else if sel = DW_EH_PE_absptr then Base_break 0 location 0
      else if sel = DW_EH_PE_textrel then
        (if text_base state = PL_VM_ADDRESS_INVALID lim then Base_return PLCRASH_ENOTSUP
         else Base_break (text_base state) location 0)
      else if sel = DW_EH_PE_datarel then
        (if data_base state = PL_VM_ADDRESS_INVALID lim then Base_return PLCRASH_ENOTSUP
         else Base_break (data_base state) location 0)
      else if sel = DW_EH_PE_funcrel then
        (if func_base state = PL_VM_ADDRESS_INVALID lim then Base_return PLCRASH_ENOTSUP
         else Base_break (func_base state) location 0)
      else if sel = DW_EH_PE_aligned then
        (if frame_section_vm_addr state = PL_VM_ADDRESS_INVALID lim
         then Base_return PLCRASH_ENOTSUP
         else if frame_section_base state = PL_VM_ADDRESS_INVALID lim
         then Base_return PLCRASH_ENOTSUP
         else if location < frame_section_base state then Base_assert_failed
         else
           (let offset = location - frame_section_base state;
                vm_addr = frame_section_vm_addr state + offset;
                vm_aligned = (vm_addr + (address_size state - 1)) AND NOT (address_size state)
            in Base_break 0 (location + (vm_aligned - vm_addr)) (vm_aligned - vm_addr)))
      else Base_return PLCRASH_ENOTSUP)"

text \<open>
  The second \<^verbatim>\<open>switch\<close> (lines 211-322), on \<^verbatim>\<open>encoding & 0x0F\<close>: it returns early
  with an error, or leaves with the new \<^verbatim>\<open>*result\<close> and the number of bytes it adds to
  \<^verbatim>\<open>*size\<close>; both carry the read requests made. \<open>uninit\<close> is the indeterminate
  content of the locals \<^verbatim>\<open>uleb_size\<close> and \<^verbatim>\<open>sleb_size\<close> before the LEB128 decoder
  is called on them. The value \<^verbatim>\<open>err\<close> of the two LEB128 calls is assigned and not
  tested (lines 229 and 276).
\<close>

datatype value_switch =
  Value_return plcrash_error_t "remap_request list"
  | Value_break pl_vm_address_t pl_vm_size_t "remap_request list"

definition gnueh_ptr_value ::
  "pl_vm_limits \<Rightarrow> plcrash_async_mobject_t \<Rightarrow> plcrash_async_byteorder_t \<Rightarrow> pl_vm_address_t
     \<Rightarrow> DW_EH_PE_t \<Rightarrow> plcrash_async_dwarf_gnueh_ptr_state_t \<Rightarrow> pl_vm_address_t \<Rightarrow> pl_vm_size_t
     \<Rightarrow> value_switch" where
  "gnueh_ptr_value lim mobj byteorder location encoding state base uninit =
     (let sel = encoding AND 0x0F in
      if sel = DW_EH_PE_absptr then
        (case pl_dwarf_read_umax64 mobj byteorder location 0 (address_size state) of
           None \<Rightarrow> Value_return PLCRASH_EINVAL [(location, 0, unat (address_size state))]
         | Some u64 \<Rightarrow>
             Value_break (u64 + base) (address_size state)
               [(location, 0, unat (address_size state))])
      else if sel = DW_EH_PE_uleb128 then
        (let r = plcrash_async_dwarf_read_uleb128 mobj location uninit;
             ulebv = out_result r;
             uleb_size = out_size r
         in if uint ulebv > PL_VM_ADDRESS_MAX lim
            then Value_return PLCRASH_ENOTSUP (out_reads r)
            else Value_break (ulebv + base) uleb_size (out_reads r))
      else if sel = DW_EH_PE_udata2 then
        (case plcrash_async_mobject_read_uint16 mobj byteorder location 0 of
           Inl err \<Rightarrow> Value_return err [(location, 0, 2)]
         | Inr udata2 \<Rightarrow> Value_break (ucast udata2 + base) 2 [(location, 0, 2)])
      else if sel = DW_EH_PE_udata4 then
        (case plcrash_async_mobject_read_uint32 mobj byteorder location 0 of
           Inl err \<Rightarrow> Value_return err [(location, 0, 4)]
         | Inr udata4 \<Rightarrow> Value_break (ucast udata4 + base) 4 [(location, 0, 4)])
      else if sel = DW_EH_PE_udata8 then
        (case plcrash_async_mobject_read_uint64 mobj byteorder location 0 of
           Inl err \<Rightarrow> Value_return err [(location, 0, 8)]
         | Inr udata8 \<Rightarrow> Value_break (udata8 + base) 8 [(location, 0, 8)])
      else if sel = DW_EH_PE_sleb128 then
        (let r = plcrash_async_dwarf_read_sleb128 mobj location uninit;
             slebv = out_result r;
             sleb_size = out_size r
         in if sint slebv > PL_VM_OFF_MAX lim \<or> sint slebv < PL_VM_OFF_MIN lim
            then Value_return PLCRASH_ENOTSUP (out_reads r)
            else Value_break (slebv + base) sleb_size (out_reads r))
      else if sel = DW_EH_PE_sdata2 then
        (case plcrash_async_mobject_read_uint16 mobj byteorder location 0 of
           Inl err \<Rightarrow> Value_return err [(location, 0, 2)]
         | Inr sdata2 \<Rightarrow> Value_break (scast sdata2 + base) 2 [(location, 0, 2)])
      else if sel = DW_EH_PE_sdata4 then
        (case plcrash_async_mobject_read_uint32 mobj byteorder location 0 of
           Inl err \<Rightarrow> Value_return err [(location, 0, 4)]
         | Inr sdata4 \<Rightarrow> Value_break (scast sdata4 + base) 4 [(location, 0, 4)])
      else if sel = DW_EH_PE_sdata8 then
        (case plcrash_async_mobject_read_uint64 mobj byteorder location 0 of
           Inl err \<Rightarrow> Value_return err [(location, 0, 8)]
         | Inr sdata8 \<Rightarrow> Value_break (sdata8 + base) 8 [(location, 0, 8)])
      else Value_return PLCRASH_ENOTSUP [])"

text \<open>
  The function itself. \<open>result0\<close> and \<open>size0\<close> are the contents of \<^verbatim>\<open>*result\<close> and
  \<^verbatim>\<open>*size\<close> before the call. The recursive call of line 330 reads at \<^verbatim>\<open>*result\<close> with
  the encoding \<^verbatim>\<open>DW_EH_PE_absptr\<close>, writes \<^verbatim>\<open>*result\<close> and the local
  \<^verbatim>\<open>target_size\<close>, and its return value is returned; \<^verbatim>\<open>*size\<close> of the caller is not
  passed to it. \<open>uninit\<close> is the indeterminate content of the uninitialised locals
  (\<^verbatim>\<open>uleb_size\<close>, \<^verbatim>\<open>sleb_size\<close>, \<^verbatim>\<open>target_size\<close>).
\<close>

function plcrash_async_dwarf_read_gnueh_ptr ::
  "pl_vm_limits \<Rightarrow> plcrash_async_mobject_t \<Rightarrow> plcrash_async_byteorder_t \<Rightarrow> pl_vm_address_t
     \<Rightarrow> DW_EH_PE_t \<Rightarrow> plcrash_async_dwarf_gnueh_ptr_state_t \<Rightarrow> pl_vm_address_t \<Rightarrow> pl_vm_size_t
     \<Rightarrow> pl_vm_size_t \<Rightarrow> decoded completion" where
  "plcrash_async_dwarf_read_gnueh_ptr lim mobj byteorder location encoding state result0 size0
       uninit =
     (if encoding = DW_EH_PE_omit
      then Return \<lparr>out_ret = PLCRASH_ENOTFOUND, out_result = result0, out_size = size0,
                   out_reads = []\<rparr>
      else
        (case gnueh_ptr_base lim location encoding state of
           Base_return err \<Rightarrow>
             Return \<lparr>out_ret = err, out_result = result0, out_size = 0, out_reads = []\<rparr>
         | Base_assert_failed \<Rightarrow> Assert_failed
         | Base_break base location' size1 \<Rightarrow>
             (case gnueh_ptr_value lim mobj byteorder location' encoding state base uninit of
                Value_return err rd \<Rightarrow>
                  Return \<lparr>out_ret = err, out_result = result0, out_size = size1,
                          out_reads = rd\<rparr>
              | Value_break result1 n rd \<Rightarrow>
                  if encoding AND DW_EH_PE_indirect \<noteq> 0
                  then
                    (case plcrash_async_dwarf_read_gnueh_ptr lim mobj byteorder result1
                            DW_EH_PE_absptr state result1 uninit uninit of
                       Assert_failed \<Rightarrow> Assert_failed
                     | Return t \<Rightarrow>
                         Return \<lparr>out_ret = out_ret t, out_result = out_result t,
                                 out_size = size1 + n, out_reads = rd @ out_reads t\<rparr>)
                  else Return \<lparr>out_ret = PLCRASH_ESUCCESS, out_result = result1,
                               out_size = size1 + n, out_reads = rd\<rparr>)))"
  by pat_completeness auto
termination
  by (relation "measure (\<lambda>(lim, mobj, byteorder, location, encoding, state, result0, size0,
        uninit). if encoding AND DW_EH_PE_indirect = 0 then 0 else 1)")
    (auto simp: DW_EH_PE_absptr_def)

section \<open>Notions used to state the properties\<close>

text \<open>A byte whose continuation bit 0x80 is set.\<close>

definition continues :: "8 word \<Rightarrow> bool" where
  "continues b = (b AND 0x80 \<noteq> 0)"

text \<open>
  The value the spec describes for a LEB128 byte sequence (section 4.2, step 2): the low
  seven bits of each byte, shifted left by the running shift, ORed together in 64 bits.
\<close>

fun leb128_payload :: "nat \<Rightarrow> 8 word list \<Rightarrow> 64 word" where
  "leb128_payload shift [] = 0"
| "leb128_payload shift (b # bs) =
     push_bit shift (ucast (b AND 0x7f)) OR leb128_payload (shift + 7) bs"

text \<open>The single-byte requests at \<open>loc + off\<close>, \<open>loc + off + 1\<close>, ... (\<open>n\<close> of them).\<close>

fun leb128_requests :: "pl_vm_address_t \<Rightarrow> pl_vm_off_t \<Rightarrow> nat \<Rightarrow> remap_request list" where
  "leb128_requests loc off 0 = []"
| "leb128_requests loc off (Suc n) = (loc, off, 1) # leb128_requests loc (off + 1) n"

text \<open>
  \<open>bytes_at mobj loc off bs\<close>: the single-byte fetches at \<open>loc + off\<close>,
  \<open>loc + off + 1\<close>, ... are available and return the bytes \<open>bs\<close>.
\<close>

fun bytes_at ::
  "plcrash_async_mobject_t \<Rightarrow> pl_vm_address_t \<Rightarrow> pl_vm_off_t \<Rightarrow> 8 word list \<Rightarrow> bool" where
  "bytes_at mobj loc off [] = True"
| "bytes_at mobj loc off (b # bs) =
     (plcrash_async_mobject_remap_address mobj loc off 1 = Some [b] \<and>
      bytes_at mobj loc (off + 1) bs)"

text \<open>The byte order table of a target with the byte order of the host: no swapping.\<close>

definition direct_byteorder :: plcrash_async_byteorder_t where
  "direct_byteorder = \<lparr>swap16 = (\<lambda>x. x), swap32 = (\<lambda>x. x), swap64 = (\<lambda>x. x)\<rparr>"

section \<open>Unfolding the recursive functions by hand\<close>

declare uleb128_loop.simps [simp del]
declare sleb128_loop.simps [simp del]
declare plcrash_async_dwarf_read_gnueh_ptr.simps [simp del]


lemmas DW_EH_PE_defs =
  DW_EH_PE_absptr_def DW_EH_PE_uleb128_def DW_EH_PE_udata2_def DW_EH_PE_udata4_def
  DW_EH_PE_udata8_def DW_EH_PE_sleb128_def DW_EH_PE_sdata2_def DW_EH_PE_sdata4_def
  DW_EH_PE_sdata8_def DW_EH_PE_pcrel_def DW_EH_PE_textrel_def DW_EH_PE_datarel_def
  DW_EH_PE_funcrel_def DW_EH_PE_aligned_def DW_EH_PE_indirect_def DW_EH_PE_omit_def

section \<open>The memory object\<close>

lemma remap_length:
  "plcrash_async_mobject_remap_address mobj a off n = Some p \<Longrightarrow> length p = n"
  by (auto simp: plcrash_async_mobject_remap_address_def Let_def split: if_splits)

lemma remap_Cons:
  assumes "plcrash_async_mobject_remap_address mobj a off (Suc n) = Some (b # bs)"
  shows "plcrash_async_mobject_remap_address mobj a off 1 = Some [b]"
    and "plcrash_async_mobject_remap_address mobj a (off + 1) n = Some bs"
proof -
  let ?first = "uint a + off" and ?start = "uint (task_address mobj)"
  let ?k = "nat (?first - ?start)"
  from assms have range: "?start \<le> ?first"
      "?first + int (Suc n) \<le> ?start + int (length (mapped mobj))"
    and tk: "take (Suc n) (drop ?k (mapped mobj)) = b # bs"
    by (auto simp: plcrash_async_mobject_remap_address_def Let_def split: if_splits)
  from tk obtain ys where ys: "drop ?k (mapped mobj) = b # ys" and bs: "take n ys = bs"
    by (cases "drop ?k (mapped mobj)") auto
  from range show "plcrash_async_mobject_remap_address mobj a off 1 = Some [b]"
    by (simp add: plcrash_async_mobject_remap_address_def Let_def ys)
  have "drop (Suc ?k) (mapped mobj) = ys"
    using ys by (metis drop_Suc list.sel(3) tl_drop)
  moreover have "nat (uint a + (off + 1) - ?start) = Suc ?k"
    using range by simp
  ultimately show "plcrash_async_mobject_remap_address mobj a (off + 1) n = Some bs"
    using range bs by (simp add: plcrash_async_mobject_remap_address_def Let_def)
qed

text \<open>A range that is mapped as a whole is available byte by byte.\<close>

lemma remap_bytes_at:
  "plcrash_async_mobject_remap_address mobj loc off (length bs) = Some bs \<Longrightarrow>
   bytes_at mobj loc off bs"
proof (induction bs arbitrary: off)
  case Nil
  show ?case by simp
next
  case (Cons b bs)
  from remap_Cons [of mobj loc off "length bs" b bs] Cons.prems Cons.IH [of "off + 1"]
  show ?case by simp
qed

section \<open>The ULEB128 loop\<close>

text \<open>One iteration of the loop, by the way it is left.\<close>

lemma uleb128_loop_unmapped:
  "plcrash_async_mobject_remap_address mobj loc off 1 = None \<Longrightarrow>
   uleb128_loop mobj loc size0 shift off res rd =
     \<lparr>out_ret = PLCRASH_EINVAL, out_result = res, out_size = size0,
      out_reads = rd @ [(loc, off, 1)]\<rparr>"
  by (subst uleb128_loop.simps) simp

lemma uleb128_loop_break:
  "plcrash_async_mobject_remap_address mobj loc off 1 = Some [b] \<Longrightarrow> b AND 0x80 = 0 \<Longrightarrow>
   uleb128_loop mobj loc size0 shift off res rd =
     \<lparr>out_ret = PLCRASH_ESUCCESS, out_result = res OR push_bit shift (ucast (b AND 0x7f)),
      out_size = word_of_int (off + 1), out_reads = rd @ [(loc, off, 1)]\<rparr>"
  by (subst uleb128_loop.simps) (simp add: load_u8_def Let_def)

lemma uleb128_loop_too_large:
  "plcrash_async_mobject_remap_address mobj loc off 1 = Some [b] \<Longrightarrow> b AND 0x80 \<noteq> 0 \<Longrightarrow>
   64 \<le> shift + 7 \<Longrightarrow>
   uleb128_loop mobj loc size0 shift off res rd =
     \<lparr>out_ret = PLCRASH_ENOTSUP, out_result = res OR push_bit shift (ucast (b AND 0x7f)),
      out_size = size0, out_reads = rd @ [(loc, off, 1)]\<rparr>"
  by (subst uleb128_loop.simps) (simp add: load_u8_def Let_def)

lemma uleb128_loop_continue:
  "plcrash_async_mobject_remap_address mobj loc off 1 = Some [b] \<Longrightarrow> b AND 0x80 \<noteq> 0 \<Longrightarrow>
   shift + 7 < 64 \<Longrightarrow>
   uleb128_loop mobj loc size0 shift off res rd =
     uleb128_loop mobj loc size0 (shift + 7) (off + 1)
       (res OR push_bit shift (ucast (b AND 0x7f))) (rd @ [(loc, off, 1)])"
  by (subst uleb128_loop.simps) (simp add: load_u8_def Let_def)

text \<open>The loop on continuation bytes \<open>cs\<close> followed by a terminating byte \<open>t\<close>.\<close>

lemma uleb128_loop_terminated:
  assumes "bytes_at mobj loc off (cs @ [t])"
    and "list_all continues cs" and "t AND 0x80 = 0" and "shift + 7 * length cs < 64"
  shows "uleb128_loop mobj loc size0 shift off res rd =
           \<lparr>out_ret = PLCRASH_ESUCCESS, out_result = res OR leb128_payload shift (cs @ [t]),
            out_size = word_of_int (off + int (length cs) + 1),
            out_reads = rd @ leb128_requests loc off (Suc (length cs))\<rparr>"
  using assms
proof (induction cs arbitrary: shift off res rd)
  case Nil
  then show ?case by (simp add: uleb128_loop_break)
next
  case (Cons c cs)
  from Cons.prems have hd: "plcrash_async_mobject_remap_address mobj loc off 1 = Some [c]"
    and tl: "bytes_at mobj loc (off + 1) (cs @ [t])"
    and cs: "list_all continues cs"
    and sh: "shift + 7 + 7 * length cs < 64"
    by simp_all
  from Cons.prems have c: "c AND 0x80 \<noteq> 0"
    by (simp add: continues_def)
  have "uleb128_loop mobj loc size0 shift off res rd =
        uleb128_loop mobj loc size0 (shift + 7) (off + 1)
          (res OR push_bit shift (ucast (c AND 0x7f))) (rd @ [(loc, off, 1)])"
    using hd c sh by (intro uleb128_loop_continue) simp_all
  also note Cons.IH [OF tl cs \<open>t AND 0x80 = 0\<close> sh]
  finally show ?case
    by (simp add: ac_simps)
qed

text \<open>The loop on continuation bytes \<open>bs\<close> after which the next fetch is unavailable.\<close>

lemma uleb128_loop_runs_out:
  assumes "bytes_at mobj loc off bs"
    and "plcrash_async_mobject_remap_address mobj loc (off + int (length bs)) 1 = None"
    and "list_all continues bs" and "shift + 7 * length bs < 64"
  shows "uleb128_loop mobj loc size0 shift off res rd =
           \<lparr>out_ret = PLCRASH_EINVAL, out_result = res OR leb128_payload shift bs,
            out_size = size0,
            out_reads = rd @ leb128_requests loc off (Suc (length bs))\<rparr>"
  using assms
proof (induction bs arbitrary: shift off res rd)
  case Nil
  then show ?case by (simp add: uleb128_loop_unmapped)
next
  case (Cons c cs)
  from Cons.prems have hd: "plcrash_async_mobject_remap_address mobj loc off 1 = Some [c]"
    and tl: "bytes_at mobj loc (off + 1) cs"
    and cs: "list_all continues cs"
    and sh: "shift + 7 + 7 * length cs < 64"
    by simp_all
  have "off + int (length (c # cs)) = off + 1 + int (length cs)" by simp
  with Cons.prems(2)
  have none: "plcrash_async_mobject_remap_address mobj loc (off + 1 + int (length cs)) 1 = None"
    by (simp only:)
  from Cons.prems have c: "c AND 0x80 \<noteq> 0"
    by (simp add: continues_def)
  have "uleb128_loop mobj loc size0 shift off res rd =
        uleb128_loop mobj loc size0 (shift + 7) (off + 1)
          (res OR push_bit shift (ucast (c AND 0x7f))) (rd @ [(loc, off, 1)])"
    using hd c sh by (intro uleb128_loop_continue) simp_all
  also note Cons.IH [OF tl none cs sh]
  finally show ?case
    by (simp add: ac_simps)
qed

text \<open>The loop on continuation bytes that carry the shift to 64 or beyond.\<close>

lemma uleb128_loop_overlong:
  assumes "bytes_at mobj loc off bs"
    and "list_all continues bs" and "shift < 64" and "64 \<le> shift + 7 * length bs"
  shows "out_ret (uleb128_loop mobj loc size0 shift off res rd) = PLCRASH_ENOTSUP"
  using assms
proof (induction bs arbitrary: shift off res rd)
  case Nil
  then show ?case by simp
next
  case (Cons c cs)
  from Cons.prems have hd: "plcrash_async_mobject_remap_address mobj loc off 1 = Some [c]"
    and tl: "bytes_at mobj loc (off + 1) cs"
    and cs: "list_all continues cs"
    by simp_all
  from Cons.prems have c: "c AND 0x80 \<noteq> 0"
    by (simp add: continues_def)
  show ?case
  proof (cases "64 \<le> shift + 7")
    case True
    with hd c show ?thesis by (simp add: uleb128_loop_too_large)
  next
    case False
    then have sh: "shift + 7 < 64" by simp
    from Cons.prems have "64 \<le> shift + 7 + 7 * length cs" by simp
    from Cons.IH [OF tl cs sh this] show ?thesis
      using hd c sh by (simp add: uleb128_loop_continue)
  qed
qed

text \<open>Each fetch adds 7 to a shift that is below 64 at the loop head.\<close>

lemma uleb128_loop_reads_bound:
  "shift < 64 \<Longrightarrow>
   7 * length (out_reads (uleb128_loop mobj loc size0 shift off res rd)) + shift
     \<le> 7 * length rd + 70"
proof (induction mobj loc size0 shift off res rd rule: uleb128_loop.induct)
  case (1 mobj location size0 shift offset result rd)
  show ?case
  proof (cases "plcrash_async_mobject_remap_address mobj location offset 1")
    case None
    with "1.prems" show ?thesis by (simp add: uleb128_loop_unmapped)
  next
    case (Some p)
    show ?thesis
    proof (cases "load_u8 p AND 0x80 = 0 \<or> 64 \<le> shift + 7")
      case True
      with Some "1.prems" show ?thesis
        by (subst uleb128_loop.simps) (auto simp: Let_def)
    next
      case False
      then have sh: "shift + 7 < 64" by simp
      have step: "uleb128_loop mobj location size0 shift offset result rd =
          uleb128_loop mobj location size0 (shift + 7) (offset + 1)
            (result OR push_bit shift (ucast (load_u8 p AND 0x7f))) (rd @ [(location, offset, 1)])"
        using Some False by (subst uleb128_loop.simps) (simp add: Let_def)
      from False have "\<not> load_u8 p AND 0x80 = 0" and "\<not> 64 \<le> shift + 7" by simp_all
      from "1.IH" [OF Some refl refl refl refl refl this sh] show ?thesis
        unfolding step by simp
    qed
  qed
qed

text \<open>\<^verbatim>\<open>*size\<close> is assigned on the successful return only.\<close>

lemma uleb128_loop_failure_size:
  "out_ret (uleb128_loop mobj loc size0 shift off res rd) \<noteq> PLCRASH_ESUCCESS \<Longrightarrow>
   out_size (uleb128_loop mobj loc size0 shift off res rd) = size0"
proof (induction mobj loc size0 shift off res rd rule: uleb128_loop.induct)
  case (1 mobj location size0 shift offset result rd)
  show ?case
  proof (cases "plcrash_async_mobject_remap_address mobj location offset 1")
    case None
    then show ?thesis by (simp add: uleb128_loop_unmapped)
  next
    case (Some p)
    show ?thesis
    proof (cases "load_u8 p AND 0x80 = 0 \<or> 64 \<le> shift + 7")
      case True
      with Some "1.prems" show ?thesis
        by (subst uleb128_loop.simps, subst (asm) uleb128_loop.simps) (auto simp: Let_def)
    next
      case False
      with Some "1.prems" "1.IH" [OF Some refl refl refl refl refl] show ?thesis
        by (subst uleb128_loop.simps, subst (asm) uleb128_loop.simps) (simp add: Let_def)
    qed
  qed
qed

section \<open>The SLEB128 loop\<close>

text \<open>The same facts for the second copy of the loop.\<close>

lemma sleb128_loop_unmapped:
  "plcrash_async_mobject_remap_address mobj loc off 1 = None \<Longrightarrow>
   sleb128_loop mobj loc size0 shift off res rd =
     \<lparr>out_ret = PLCRASH_EINVAL, out_result = res, out_size = size0,
      out_reads = rd @ [(loc, off, 1)]\<rparr>"
  by (subst sleb128_loop.simps) simp

lemma sleb128_loop_break:
  "plcrash_async_mobject_remap_address mobj loc off 1 = Some [b] \<Longrightarrow> b AND 0x80 = 0 \<Longrightarrow>
   sleb128_loop mobj loc size0 shift off res rd =
     \<lparr>out_ret = PLCRASH_ESUCCESS,
      out_result =
        (if shift + 7 < 64 \<and> b AND 0x40 \<noteq> 0
         then (res OR push_bit shift (ucast (b AND 0x7f))) OR - push_bit (shift + 7) 1
         else res OR push_bit shift (ucast (b AND 0x7f))),
      out_size = word_of_int (off + 1), out_reads = rd @ [(loc, off, 1)]\<rparr>"
  by (subst sleb128_loop.simps) (simp add: load_u8_def Let_def)

lemma sleb128_loop_too_large:
  "plcrash_async_mobject_remap_address mobj loc off 1 = Some [b] \<Longrightarrow> b AND 0x80 \<noteq> 0 \<Longrightarrow>
   64 \<le> shift + 7 \<Longrightarrow>
   sleb128_loop mobj loc size0 shift off res rd =
     \<lparr>out_ret = PLCRASH_ENOTSUP, out_result = res OR push_bit shift (ucast (b AND 0x7f)),
      out_size = size0, out_reads = rd @ [(loc, off, 1)]\<rparr>"
  by (subst sleb128_loop.simps) (simp add: load_u8_def Let_def)

lemma sleb128_loop_continue:
  "plcrash_async_mobject_remap_address mobj loc off 1 = Some [b] \<Longrightarrow> b AND 0x80 \<noteq> 0 \<Longrightarrow>
   shift + 7 < 64 \<Longrightarrow>
   sleb128_loop mobj loc size0 shift off res rd =
     sleb128_loop mobj loc size0 (shift + 7) (off + 1)
       (res OR push_bit shift (ucast (b AND 0x7f))) (rd @ [(loc, off, 1)])"
  by (subst sleb128_loop.simps) (simp add: load_u8_def Let_def)

lemma sleb128_loop_terminated:
  assumes "bytes_at mobj loc off (cs @ [t])"
    and "list_all continues cs" and "t AND 0x80 = 0" and "shift + 7 * length cs < 64"
  shows "sleb128_loop mobj loc size0 shift off res rd =
           \<lparr>out_ret = PLCRASH_ESUCCESS,
            out_result =
              (if shift + 7 * Suc (length cs) < 64 \<and> t AND 0x40 \<noteq> 0
               then (res OR leb128_payload shift (cs @ [t]))
                      OR - push_bit (shift + 7 * Suc (length cs)) 1
               else res OR leb128_payload shift (cs @ [t])),
            out_size = word_of_int (off + int (length cs) + 1),
            out_reads = rd @ leb128_requests loc off (Suc (length cs))\<rparr>"
  using assms
proof (induction cs arbitrary: shift off res rd)
  case Nil
  then show ?case by (simp add: sleb128_loop_break)
next
  case (Cons c cs)
  from Cons.prems have hd: "plcrash_async_mobject_remap_address mobj loc off 1 = Some [c]"
    and tl: "bytes_at mobj loc (off + 1) (cs @ [t])"
    and cs: "list_all continues cs"
    and sh: "shift + 7 + 7 * length cs < 64"
    by simp_all
  from Cons.prems have c: "c AND 0x80 \<noteq> 0"
    by (simp add: continues_def)
  have "sleb128_loop mobj loc size0 shift off res rd =
        sleb128_loop mobj loc size0 (shift + 7) (off + 1)
          (res OR push_bit shift (ucast (c AND 0x7f))) (rd @ [(loc, off, 1)])"
    using hd c sh by (intro sleb128_loop_continue) simp_all
  also note Cons.IH [OF tl cs \<open>t AND 0x80 = 0\<close> sh]
  finally show ?case
    by (simp add: ac_simps)
qed

lemma sleb128_loop_runs_out:
  assumes "bytes_at mobj loc off bs"
    and "plcrash_async_mobject_remap_address mobj loc (off + int (length bs)) 1 = None"
    and "list_all continues bs" and "shift + 7 * length bs < 64"
  shows "sleb128_loop mobj loc size0 shift off res rd =
           \<lparr>out_ret = PLCRASH_EINVAL, out_result = res OR leb128_payload shift bs,
            out_size = size0,
            out_reads = rd @ leb128_requests loc off (Suc (length bs))\<rparr>"
  using assms
proof (induction bs arbitrary: shift off res rd)
  case Nil
  then show ?case by (simp add: sleb128_loop_unmapped)
next
  case (Cons c cs)
  from Cons.prems have hd: "plcrash_async_mobject_remap_address mobj loc off 1 = Some [c]"
    and tl: "bytes_at mobj loc (off + 1) cs"
    and cs: "list_all continues cs"
    and sh: "shift + 7 + 7 * length cs < 64"
    by simp_all
  have "off + int (length (c # cs)) = off + 1 + int (length cs)" by simp
  with Cons.prems(2)
  have none: "plcrash_async_mobject_remap_address mobj loc (off + 1 + int (length cs)) 1 = None"
    by (simp only:)
  from Cons.prems have c: "c AND 0x80 \<noteq> 0"
    by (simp add: continues_def)
  have "sleb128_loop mobj loc size0 shift off res rd =
        sleb128_loop mobj loc size0 (shift + 7) (off + 1)
          (res OR push_bit shift (ucast (c AND 0x7f))) (rd @ [(loc, off, 1)])"
    using hd c sh by (intro sleb128_loop_continue) simp_all
  also note Cons.IH [OF tl none cs sh]
  finally show ?case
    by (simp add: ac_simps)
qed

lemma sleb128_loop_overlong:
  assumes "bytes_at mobj loc off bs"
    and "list_all continues bs" and "shift < 64" and "64 \<le> shift + 7 * length bs"
  shows "out_ret (sleb128_loop mobj loc size0 shift off res rd) = PLCRASH_ENOTSUP"
  using assms
proof (induction bs arbitrary: shift off res rd)
  case Nil
  then show ?case by simp
next
  case (Cons c cs)
  from Cons.prems have hd: "plcrash_async_mobject_remap_address mobj loc off 1 = Some [c]"
    and tl: "bytes_at mobj loc (off + 1) cs"
    and cs: "list_all continues cs"
    by simp_all
  from Cons.prems have c: "c AND 0x80 \<noteq> 0"
    by (simp add: continues_def)
  show ?case
  proof (cases "64 \<le> shift + 7")
    case True
    with hd c show ?thesis by (simp add: sleb128_loop_too_large)
  next
    case False
    then have sh: "shift + 7 < 64" by simp
    from Cons.prems have "64 \<le> shift + 7 + 7 * length cs" by simp
    from Cons.IH [OF tl cs sh this] show ?thesis
      using hd c sh by (simp add: sleb128_loop_continue)
  qed
qed

lemma sleb128_loop_failure_size:
  "out_ret (sleb128_loop mobj loc size0 shift off res rd) \<noteq> PLCRASH_ESUCCESS \<Longrightarrow>
   out_size (sleb128_loop mobj loc size0 shift off res rd) = size0"
proof (induction mobj loc size0 shift off res rd rule: sleb128_loop.induct)
  case (1 mobj location size0 shift offset result rd)
  show ?case
  proof (cases "plcrash_async_mobject_remap_address mobj location offset 1")
    case None
    then show ?thesis by (simp add: sleb128_loop_unmapped)
  next
    case (Some p)
    show ?thesis
    proof (cases "load_u8 p AND 0x80 = 0 \<or> 64 \<le> shift + 7")
      case True
      with Some "1.prems" show ?thesis
        by (subst sleb128_loop.simps, subst (asm) sleb128_loop.simps) (auto simp: Let_def)
    next
      case False
      with Some "1.prems" "1.IH" [OF Some refl refl refl refl refl] show ?thesis
        by (subst sleb128_loop.simps, subst (asm) sleb128_loop.simps) (simp add: Let_def)
    qed
  qed
qed

section \<open>The LEB128 decoders\<close>

text \<open>The equations that evaluate the decoders on a concrete memory object.\<close>

lemmas leb128_eval =
  plcrash_async_dwarf_read_uleb128_def plcrash_async_dwarf_read_sleb128_def
  uleb128_loop.simps sleb128_loop.simps plcrash_async_mobject_remap_address_def load_u8_def

text \<open>
  C7: the ULEB128 decoder ORs the low seven bits of each fetched byte, shifted left by
  the running shift, into the accumulator, and counts a byte before it tests the
  terminator, so the size includes the terminating byte. For continuation bytes \<open>cs\<close>
  (at most nine) followed by a terminating byte \<open>t\<close> the decoder succeeds with the
  payload of \<open>cs @ [t]\<close>, the size \<open>length (cs @ [t])\<close> and one single-byte request
  per byte. The byte 0x00 decodes to 0 with size 1, the bytes 0xE5 0x8E 0x26 to 624485
  with size 3.
\<close>

theorem uleb128_accumulates:
  "(bytes_at mobj location 0 (cs @ [t]) \<and> list_all continues cs \<and> t AND 0x80 = 0 \<and>
    length cs < 10 \<longrightarrow>
      plcrash_async_dwarf_read_uleb128 mobj location size0 =
        \<lparr>out_ret = PLCRASH_ESUCCESS, out_result = leb128_payload 0 (cs @ [t]),
         out_size = of_nat (length (cs @ [t])),
         out_reads = leb128_requests location 0 (length (cs @ [t]))\<rparr>) \<and>
   plcrash_async_dwarf_read_uleb128 \<lparr>task_address = 0x1000, mapped = [0x00]\<rparr> 0x1000 size0 =
     \<lparr>out_ret = PLCRASH_ESUCCESS, out_result = 0, out_size = 1,
      out_reads = [(0x1000, 0, 1)]\<rparr> \<and>
   plcrash_async_dwarf_read_uleb128 \<lparr>task_address = 0x1000, mapped = [0xE5, 0x8E, 0x26]\<rparr>
       0x1000 size0 =
     \<lparr>out_ret = PLCRASH_ESUCCESS, out_result = 624485, out_size = 3,
      out_reads = [(0x1000, 0, 1), (0x1000, 1, 1), (0x1000, 2, 1)]\<rparr>"
proof (intro conjI impI)
  assume h: "bytes_at mobj location 0 (cs @ [t]) \<and> list_all continues cs \<and> t AND 0x80 = 0 \<and>
    length cs < 10"
  then have "0 + 7 * length cs < 64" by simp
  with h show "plcrash_async_dwarf_read_uleb128 mobj location size0 =
        \<lparr>out_ret = PLCRASH_ESUCCESS, out_result = leb128_payload 0 (cs @ [t]),
         out_size = of_nat (length (cs @ [t])),
         out_reads = leb128_requests location 0 (length (cs @ [t]))\<rparr>"
    unfolding plcrash_async_dwarf_read_uleb128_def
    by (subst uleb128_loop_terminated [of mobj location 0 cs t 0]) simp_all
qed (simp_all add: leb128_eval)

theorem uleb128_accumulates_witness:
  "bytes_at \<lparr>task_address = 0x2000, mapped = [0x05, 0xE5, 0x8E, 0x26, 0xFF]\<rparr> 0x2001 0
     ([0xE5, 0x8E] @ [0x26]) \<and>
   list_all continues [0xE5, 0x8E] \<and> (0x26 :: 8 word) AND 0x80 = 0 \<and>
   length [0xE5, 0x8E :: 8 word] < 10 \<and>
   plcrash_async_dwarf_read_uleb128
       \<lparr>task_address = 0x2000, mapped = [0x05, 0xE5, 0x8E, 0x26, 0xFF]\<rparr> 0x2001 7 =
     \<lparr>out_ret = PLCRASH_ESUCCESS, out_result = 624485, out_size = 3,
      out_reads = [(0x2001, 0, 1), (0x2001, 1, 1), (0x2001, 2, 1)]\<rparr>"
proof -
  have h: "bytes_at \<lparr>task_address = 0x2000, mapped = [0x05, 0xE5, 0x8E, 0x26, 0xFF]\<rparr> 0x2001 0
      ([0xE5, 0x8E] @ [0x26]) \<and>
    list_all continues [0xE5, 0x8E] \<and> (0x26 :: 8 word) AND 0x80 = 0 \<and>
    length [0xE5, 0x8E :: 8 word] < 10"
    by (simp add: plcrash_async_mobject_remap_address_def continues_def)
  from uleb128_accumulates [THEN conjunct1, rule_format, OF h, of 7] h
  show ?thesis by simp
qed

text \<open>
  C4: the SLEB128 decoder accumulates the same bits as the unsigned decoder; after the
  loop it ORs \<open>-(1 << shift)\<close> into the result exactly when the final shift (seven
  times the number of bytes) is below 64 and bit 0x40 of the terminating byte is set.
  The byte 0x7F decodes to -1 with size 1, the bytes 0x9B 0xF1 0x59 to -624485 with
  size 3.
\<close>

theorem sleb128_sign_extends:
  "(bytes_at mobj location 0 (cs @ [t]) \<and> list_all continues cs \<and> t AND 0x80 = 0 \<and>
    length cs < 10 \<longrightarrow>
      plcrash_async_dwarf_read_sleb128 mobj location size0 =
        \<lparr>out_ret = PLCRASH_ESUCCESS,
         out_result =
           (if 7 * length (cs @ [t]) < 64 \<and> t AND 0x40 \<noteq> 0
            then out_result (plcrash_async_dwarf_read_uleb128 mobj location size0)
                   OR - push_bit (7 * length (cs @ [t])) 1
            else out_result (plcrash_async_dwarf_read_uleb128 mobj location size0)),
         out_size = of_nat (length (cs @ [t])),
         out_reads = leb128_requests location 0 (length (cs @ [t]))\<rparr> \<and>
      out_result (plcrash_async_dwarf_read_uleb128 mobj location size0) =
        leb128_payload 0 (cs @ [t])) \<and>
   (let r = plcrash_async_dwarf_read_sleb128 \<lparr>task_address = 0x1000, mapped = [0x7F]\<rparr>
              0x1000 size0
    in out_ret r = PLCRASH_ESUCCESS \<and> sint (out_result r) = - 1 \<and> out_size r = 1) \<and>
   (let r = plcrash_async_dwarf_read_sleb128
              \<lparr>task_address = 0x1000, mapped = [0x9B, 0xF1, 0x59]\<rparr> 0x1000 size0
    in out_ret r = PLCRASH_ESUCCESS \<and> sint (out_result r) = - 624485 \<and> out_size r = 3)"
proof (intro conjI impI)
  assume h: "bytes_at mobj location 0 (cs @ [t]) \<and> list_all continues cs \<and> t AND 0x80 = 0 \<and>
    length cs < 10"
  then have sh: "0 + 7 * length cs < 64" by simp
  from h sh have u: "plcrash_async_dwarf_read_uleb128 mobj location size0 =
        \<lparr>out_ret = PLCRASH_ESUCCESS, out_result = leb128_payload 0 (cs @ [t]),
         out_size = of_nat (length (cs @ [t])),
         out_reads = leb128_requests location 0 (length (cs @ [t]))\<rparr>"
    unfolding plcrash_async_dwarf_read_uleb128_def
    by (subst uleb128_loop_terminated [of mobj location 0 cs t 0]) simp_all
  then show "out_result (plcrash_async_dwarf_read_uleb128 mobj location size0) =
        leb128_payload 0 (cs @ [t])" by simp
  from h sh show "plcrash_async_dwarf_read_sleb128 mobj location size0 =
        \<lparr>out_ret = PLCRASH_ESUCCESS,
         out_result =
           (if 7 * length (cs @ [t]) < 64 \<and> t AND 0x40 \<noteq> 0
            then out_result (plcrash_async_dwarf_read_uleb128 mobj location size0)
                   OR - push_bit (7 * length (cs @ [t])) 1
            else out_result (plcrash_async_dwarf_read_uleb128 mobj location size0)),
         out_size = of_nat (length (cs @ [t])),
         out_reads = leb128_requests location 0 (length (cs @ [t]))\<rparr>"
    unfolding u plcrash_async_dwarf_read_sleb128_def
    by (subst sleb128_loop_terminated [of mobj location 0 cs t 0]) simp_all
qed (simp_all add: leb128_eval)


theorem sleb128_sign_extends_witness:
  "bytes_at \<lparr>task_address = 0x2000, mapped = [0x05, 0x9B, 0xF1, 0x59, 0xFF]\<rparr> 0x2001 0
     ([0x9B, 0xF1] @ [0x59]) \<and>
   list_all continues [0x9B, 0xF1] \<and> (0x59 :: 8 word) AND 0x80 = 0 \<and>
   length [0x9B, 0xF1 :: 8 word] < 10 \<and>
   (0x59 :: 8 word) AND 0x40 \<noteq> 0 \<and>
   out_result (plcrash_async_dwarf_read_uleb128
       \<lparr>task_address = 0x2000, mapped = [0x05, 0x9B, 0xF1, 0x59, 0xFF]\<rparr> 0x2001 7) = 0x16789B \<and>
   plcrash_async_dwarf_read_sleb128
       \<lparr>task_address = 0x2000, mapped = [0x05, 0x9B, 0xF1, 0x59, 0xFF]\<rparr> 0x2001 7 =
     \<lparr>out_ret = PLCRASH_ESUCCESS, out_result = 0x16789B OR - push_bit 21 1, out_size = 3,
      out_reads = [(0x2001, 0, 1), (0x2001, 1, 1), (0x2001, 2, 1)]\<rparr>"
proof -
  have h: "bytes_at \<lparr>task_address = 0x2000, mapped = [0x05, 0x9B, 0xF1, 0x59, 0xFF]\<rparr> 0x2001 0
      ([0x9B, 0xF1] @ [0x59]) \<and>
    list_all continues [0x9B, 0xF1] \<and> (0x59 :: 8 word) AND 0x80 = 0 \<and>
    length [0x9B, 0xF1 :: 8 word] < 10"
    by (simp add: plcrash_async_mobject_remap_address_def continues_def)
  have u: "out_result (plcrash_async_dwarf_read_uleb128
       \<lparr>task_address = 0x2000, mapped = [0x05, 0x9B, 0xF1, 0x59, 0xFF]\<rparr> 0x2001 7) = 0x16789B"
    by (simp add: leb128_eval)
  from sleb128_sign_extends [THEN conjunct1, rule_format, OF h, of 7] h u
  show ?thesis by simp
qed

text \<open>
  C5: when the ten bytes at the location (or more) all have the continuation bit set,
  the ULEB128 decoder returns \<^verbatim>\<open>PLCRASH_ENOTSUP\<close>, not a truncated value; and on every
  input the decoder makes at most ten single-byte requests, so it stops at or before the
  tenth byte.
\<close>

theorem uleb128_overlong_unsupported:
  "(bytes_at mobj location 0 bs \<and> list_all continues bs \<and> 10 \<le> length bs \<longrightarrow>
      out_ret (plcrash_async_dwarf_read_uleb128 mobj location size0) = PLCRASH_ENOTSUP) \<and>
   length (out_reads (plcrash_async_dwarf_read_uleb128 mobj location size0)) \<le> 10"
proof (intro conjI impI)
  assume h: "bytes_at mobj location 0 bs \<and> list_all continues bs \<and> 10 \<le> length bs"
  then have "64 \<le> 0 + 7 * length bs" by simp
  with h show "out_ret (plcrash_async_dwarf_read_uleb128 mobj location size0) = PLCRASH_ENOTSUP"
    unfolding plcrash_async_dwarf_read_uleb128_def
    by (intro uleb128_loop_overlong [of mobj location 0 bs 0]) simp_all
next
  from uleb128_loop_reads_bound [of 0 mobj location size0 0 0 "[]"]
  show "length (out_reads (plcrash_async_dwarf_read_uleb128 mobj location size0)) \<le> 10"
    unfolding plcrash_async_dwarf_read_uleb128_def by simp
qed

theorem uleb128_overlong_unsupported_witness:
  "bytes_at \<lparr>task_address = 0x1000,
              mapped = [0xFF, 0xFF, 0xFF, 0xFF, 0xFF, 0xFF, 0xFF, 0xFF, 0xFF, 0xFF, 0x01]\<rparr>
     0x1000 0 [0xFF, 0xFF, 0xFF, 0xFF, 0xFF, 0xFF, 0xFF, 0xFF, 0xFF, 0xFF] \<and>
   list_all continues [0xFF, 0xFF, 0xFF, 0xFF, 0xFF, 0xFF, 0xFF, 0xFF, 0xFF, 0xFF] \<and>
   10 \<le> length [0xFF, 0xFF, 0xFF, 0xFF, 0xFF, 0xFF, 0xFF, 0xFF, 0xFF, 0xFF :: 8 word] \<and>
   out_ret (plcrash_async_dwarf_read_uleb128
     \<lparr>task_address = 0x1000,
      mapped = [0xFF, 0xFF, 0xFF, 0xFF, 0xFF, 0xFF, 0xFF, 0xFF, 0xFF, 0xFF, 0x01]\<rparr>
     0x1000 0) = PLCRASH_ENOTSUP"
proof -
  have h: "bytes_at \<lparr>task_address = 0x1000,
              mapped = [0xFF, 0xFF, 0xFF, 0xFF, 0xFF, 0xFF, 0xFF, 0xFF, 0xFF, 0xFF, 0x01]\<rparr>
     0x1000 0 [0xFF, 0xFF, 0xFF, 0xFF, 0xFF, 0xFF, 0xFF, 0xFF, 0xFF, 0xFF] \<and>
   list_all continues [0xFF, 0xFF, 0xFF, 0xFF, 0xFF, 0xFF, 0xFF, 0xFF, 0xFF, 0xFF] \<and>
   10 \<le> length [0xFF, 0xFF, 0xFF, 0xFF, 0xFF, 0xFF, 0xFF, 0xFF, 0xFF, 0xFF :: 8 word]"
    by (simp add: plcrash_async_mobject_remap_address_def continues_def)
  from uleb128_overlong_unsupported [THEN conjunct1, rule_format, OF h, of 0] h
  show ?thesis by simp
qed

text \<open>
  C6, as amended: when fewer than ten bytes are available at the location, all with the
  continuation bit set, and the fetch after them is unavailable, both decoders return
  \<^verbatim>\<open>PLCRASH_EINVAL\<close>.
\<close>

theorem leb128_runs_out_invalid:
  "bytes_at mobj location 0 bs \<and> list_all continues bs \<and>
   plcrash_async_mobject_remap_address mobj location (int (length bs)) 1 = None \<and>
   length bs < 10 \<longrightarrow>
     out_ret (plcrash_async_dwarf_read_uleb128 mobj location size0) = PLCRASH_EINVAL \<and>
     out_ret (plcrash_async_dwarf_read_sleb128 mobj location size0) = PLCRASH_EINVAL"
proof (intro conjI impI)
  assume h: "bytes_at mobj location 0 bs \<and> list_all continues bs \<and>
   plcrash_async_mobject_remap_address mobj location (int (length bs)) 1 = None \<and>
   length bs < 10"
  then have sh: "0 + 7 * length bs < 64" by simp
  from h sh show "out_ret (plcrash_async_dwarf_read_uleb128 mobj location size0) = PLCRASH_EINVAL"
    unfolding plcrash_async_dwarf_read_uleb128_def
    by (subst uleb128_loop_runs_out [of mobj location 0 bs 0]) simp_all
  from h sh show "out_ret (plcrash_async_dwarf_read_sleb128 mobj location size0) = PLCRASH_EINVAL"
    unfolding plcrash_async_dwarf_read_sleb128_def
    by (subst sleb128_loop_runs_out [of mobj location 0 bs 0]) simp_all
qed

theorem leb128_runs_out_invalid_witness:
  "bytes_at \<lparr>task_address = 0x1000, mapped = [0x81, 0x82, 0x83]\<rparr> 0x1000 0 [0x81, 0x82, 0x83] \<and>
   list_all continues [0x81, 0x82, 0x83] \<and>
   plcrash_async_mobject_remap_address \<lparr>task_address = 0x1000, mapped = [0x81, 0x82, 0x83]\<rparr>
     0x1000 (int (length [0x81, 0x82, 0x83 :: 8 word])) 1 = None \<and>
   length [0x81, 0x82, 0x83 :: 8 word] < 10 \<and>
   out_ret (plcrash_async_dwarf_read_uleb128
     \<lparr>task_address = 0x1000, mapped = [0x81, 0x82, 0x83]\<rparr> 0x1000 0) = PLCRASH_EINVAL \<and>
   out_ret (plcrash_async_dwarf_read_sleb128
     \<lparr>task_address = 0x1000, mapped = [0x81, 0x82, 0x83]\<rparr> 0x1000 0) = PLCRASH_EINVAL"
proof -
  have h: "bytes_at \<lparr>task_address = 0x1000, mapped = [0x81, 0x82, 0x83]\<rparr> 0x1000 0
      [0x81, 0x82, 0x83] \<and>
    list_all continues [0x81, 0x82, 0x83] \<and>
    plcrash_async_mobject_remap_address \<lparr>task_address = 0x1000, mapped = [0x81, 0x82, 0x83]\<rparr>
      0x1000 (int (length [0x81, 0x82, 0x83 :: 8 word])) 1 = None \<and>
    length [0x81, 0x82, 0x83 :: 8 word] < 10"
    by (simp add: plcrash_async_mobject_remap_address_def continues_def)
  from leb128_runs_out_invalid [rule_format, OF h, of 0] h
  show ?thesis by simp
qed

text \<open>
  C6 as stated fails where the mapped range ends after ten continuation bytes: the range
  ends before a terminating byte, and both decoders return \<^verbatim>\<open>PLCRASH_ENOTSUP\<close> at the
  tenth byte (the test \<^verbatim>\<open>shift >= 64\<close>), before the unavailable fetch.
\<close>

theorem leb128_runs_out_counterexample:
  "bytes_at \<lparr>task_address = 0x1000,
              mapped = [0x80, 0x80, 0x80, 0x80, 0x80, 0x80, 0x80, 0x80, 0x80, 0x80]\<rparr>
     0x1000 0 [0x80, 0x80, 0x80, 0x80, 0x80, 0x80, 0x80, 0x80, 0x80, 0x80] \<and>
   list_all continues [0x80, 0x80, 0x80, 0x80, 0x80, 0x80, 0x80, 0x80, 0x80, 0x80] \<and>
   plcrash_async_mobject_remap_address
     \<lparr>task_address = 0x1000,
      mapped = [0x80, 0x80, 0x80, 0x80, 0x80, 0x80, 0x80, 0x80, 0x80, 0x80]\<rparr>
     0x1000 10 1 = None \<and>
   out_ret (plcrash_async_dwarf_read_uleb128
     \<lparr>task_address = 0x1000,
      mapped = [0x80, 0x80, 0x80, 0x80, 0x80, 0x80, 0x80, 0x80, 0x80, 0x80]\<rparr>
     0x1000 0) = PLCRASH_ENOTSUP \<and>
   out_ret (plcrash_async_dwarf_read_sleb128
     \<lparr>task_address = 0x1000,
      mapped = [0x80, 0x80, 0x80, 0x80, 0x80, 0x80, 0x80, 0x80, 0x80, 0x80]\<rparr>
     0x1000 0) = PLCRASH_ENOTSUP \<and>
   PLCRASH_ENOTSUP \<noteq> PLCRASH_EINVAL"
  by (simp add: leb128_eval continues_def)

text \<open>
  C10: on every return other than \<^verbatim>\<open>PLCRASH_ESUCCESS\<close> both LEB128 decoders leave
  \<^verbatim>\<open>*size\<close> with the content it had before the call, while \<^verbatim>\<open>*result\<close> holds what
  was accumulated from the bytes consumed: when the range ends after the continuation
  bytes \<open>bs\<close>, it is the payload of \<open>bs\<close>.
\<close>

theorem leb128_failure_leaves_size:
  "(out_ret (plcrash_async_dwarf_read_uleb128 mobj location size0) \<noteq> PLCRASH_ESUCCESS \<longrightarrow>
      out_size (plcrash_async_dwarf_read_uleb128 mobj location size0) = size0) \<and>
   (out_ret (plcrash_async_dwarf_read_sleb128 mobj location size0) \<noteq> PLCRASH_ESUCCESS \<longrightarrow>
      out_size (plcrash_async_dwarf_read_sleb128 mobj location size0) = size0) \<and>
   (bytes_at mobj location 0 bs \<and> list_all continues bs \<and>
    plcrash_async_mobject_remap_address mobj location (int (length bs)) 1 = None \<and>
    length bs < 10 \<longrightarrow>
      out_result (plcrash_async_dwarf_read_uleb128 mobj location size0) = leb128_payload 0 bs \<and>
      out_result (plcrash_async_dwarf_read_sleb128 mobj location size0) = leb128_payload 0 bs)"
proof (intro conjI impI)
  assume "out_ret (plcrash_async_dwarf_read_uleb128 mobj location size0) \<noteq> PLCRASH_ESUCCESS"
  then show "out_size (plcrash_async_dwarf_read_uleb128 mobj location size0) = size0"
    unfolding plcrash_async_dwarf_read_uleb128_def by (rule uleb128_loop_failure_size)
next
  assume "out_ret (plcrash_async_dwarf_read_sleb128 mobj location size0) \<noteq> PLCRASH_ESUCCESS"
  then show "out_size (plcrash_async_dwarf_read_sleb128 mobj location size0) = size0"
    unfolding plcrash_async_dwarf_read_sleb128_def by (rule sleb128_loop_failure_size)
next
  assume h: "bytes_at mobj location 0 bs \<and> list_all continues bs \<and>
   plcrash_async_mobject_remap_address mobj location (int (length bs)) 1 = None \<and>
   length bs < 10"
  then have sh: "0 + 7 * length bs < 64" by simp
  from h sh show "out_result (plcrash_async_dwarf_read_uleb128 mobj location size0) =
      leb128_payload 0 bs"
    unfolding plcrash_async_dwarf_read_uleb128_def
    by (subst uleb128_loop_runs_out [of mobj location 0 bs 0]) simp_all
  from h sh show "out_result (plcrash_async_dwarf_read_sleb128 mobj location size0) =
      leb128_payload 0 bs"
    unfolding plcrash_async_dwarf_read_sleb128_def
    by (subst sleb128_loop_runs_out [of mobj location 0 bs 0]) simp_all
qed

theorem leb128_failure_leaves_size_witness:
  "out_ret (plcrash_async_dwarf_read_uleb128 \<lparr>task_address = 0x1000, mapped = [0x85]\<rparr>
     0x1000 77) \<noteq> PLCRASH_ESUCCESS \<and>
   out_size (plcrash_async_dwarf_read_uleb128 \<lparr>task_address = 0x1000, mapped = [0x85]\<rparr>
     0x1000 77) = 77 \<and>
   out_ret (plcrash_async_dwarf_read_sleb128 \<lparr>task_address = 0x1000, mapped = [0x85]\<rparr>
     0x1000 77) \<noteq> PLCRASH_ESUCCESS \<and>
   out_size (plcrash_async_dwarf_read_sleb128 \<lparr>task_address = 0x1000, mapped = [0x85]\<rparr>
     0x1000 77) = 77 \<and>
   bytes_at \<lparr>task_address = 0x1000, mapped = [0x85]\<rparr> 0x1000 0 [0x85] \<and>
   list_all continues [0x85] \<and>
   plcrash_async_mobject_remap_address \<lparr>task_address = 0x1000, mapped = [0x85]\<rparr>
     0x1000 (int (length [0x85 :: 8 word])) 1 = None \<and>
   length [0x85 :: 8 word] < 10 \<and>
   out_result (plcrash_async_dwarf_read_uleb128 \<lparr>task_address = 0x1000, mapped = [0x85]\<rparr>
     0x1000 77) = 5 \<and>
   out_result (plcrash_async_dwarf_read_sleb128 \<lparr>task_address = 0x1000, mapped = [0x85]\<rparr>
     0x1000 77) = 5"
proof -
  let ?m = "\<lparr>task_address = 0x1000, mapped = [0x85]\<rparr>"
  have f: "out_ret (plcrash_async_dwarf_read_uleb128 ?m 0x1000 77) \<noteq> PLCRASH_ESUCCESS"
    "out_ret (plcrash_async_dwarf_read_sleb128 ?m 0x1000 77) \<noteq> PLCRASH_ESUCCESS"
    by (simp_all add: leb128_eval)
  have h: "bytes_at ?m 0x1000 0 [0x85] \<and> list_all continues [0x85] \<and>
    plcrash_async_mobject_remap_address ?m 0x1000 (int (length [0x85 :: 8 word])) 1 = None \<and>
    length [0x85 :: 8 word] < 10"
    by (simp add: plcrash_async_mobject_remap_address_def continues_def)
  note t = leb128_failure_leaves_size [of ?m "0x1000" 77 "[0x85]"]
  from t [THEN conjunct1, rule_format, OF f(1)]
    t [THEN conjunct2, THEN conjunct1, rule_format, OF f(2)]
    t [THEN conjunct2, THEN conjunct2, rule_format, OF h] f h
  show ?thesis by simp
qed


section \<open>The encoded-pointer decoder\<close>

text \<open>The function unfolded once, by whether the indirect flag is set.\<close>

lemma omit_returns_not_found:
  "plcrash_async_dwarf_read_gnueh_ptr lim mobj byteorder location DW_EH_PE_omit state result0
     size0 uninit =
   Return \<lparr>out_ret = PLCRASH_ENOTFOUND, out_result = result0, out_size = size0,
           out_reads = []\<rparr>"
  by (subst plcrash_async_dwarf_read_gnueh_ptr.simps) simp

lemma gnueh_ptr_direct:
  assumes "encoding AND DW_EH_PE_indirect = 0"
  shows "plcrash_async_dwarf_read_gnueh_ptr lim mobj byteorder location encoding state result0
           size0 uninit =
         (case gnueh_ptr_base lim location encoding state of
            Base_return err \<Rightarrow>
              Return \<lparr>out_ret = err, out_result = result0, out_size = 0, out_reads = []\<rparr>
          | Base_assert_failed \<Rightarrow> Assert_failed
          | Base_break base location' size1 \<Rightarrow>
              (case gnueh_ptr_value lim mobj byteorder location' encoding state base uninit of
                 Value_return err rd \<Rightarrow>
                   Return \<lparr>out_ret = err, out_result = result0, out_size = size1,
                           out_reads = rd\<rparr>
               | Value_break result1 n rd \<Rightarrow>
                   Return \<lparr>out_ret = PLCRASH_ESUCCESS, out_result = result1,
                           out_size = size1 + n, out_reads = rd\<rparr>))"
proof -
  from assms have "encoding \<noteq> DW_EH_PE_omit"
    by (auto simp: DW_EH_PE_defs)
  with assms show ?thesis
    by (subst plcrash_async_dwarf_read_gnueh_ptr.simps)
      (simp split: base_switch.split value_switch.split)
qed

lemma gnueh_ptr_indirect:
  assumes "encoding AND DW_EH_PE_indirect \<noteq> 0" and "encoding \<noteq> DW_EH_PE_omit"
  shows "plcrash_async_dwarf_read_gnueh_ptr lim mobj byteorder location encoding state result0
           size0 uninit =
         (case gnueh_ptr_base lim location encoding state of
            Base_return err \<Rightarrow>
              Return \<lparr>out_ret = err, out_result = result0, out_size = 0, out_reads = []\<rparr>
          | Base_assert_failed \<Rightarrow> Assert_failed
          | Base_break base location' size1 \<Rightarrow>
              (case gnueh_ptr_value lim mobj byteorder location' encoding state base uninit of
                 Value_return err rd \<Rightarrow>
                   Return \<lparr>out_ret = err, out_result = result0, out_size = size1,
                           out_reads = rd\<rparr>
               | Value_break result1 n rd \<Rightarrow>
                   (case plcrash_async_dwarf_read_gnueh_ptr lim mobj byteorder result1
                           DW_EH_PE_absptr state result1 uninit uninit of
                      Assert_failed \<Rightarrow> Assert_failed
                    | Return t \<Rightarrow>
                        Return \<lparr>out_ret = out_ret t, out_result = out_result t,
                                out_size = size1 + n, out_reads = rd @ out_reads t\<rparr>)))"
  using assms
  by (subst plcrash_async_dwarf_read_gnueh_ptr.simps)
    (simp split: base_switch.split value_switch.split)

text \<open>The plain \<^verbatim>\<open>DW_EH_PE_absptr\<close> decode: one fixed-width read, no further call.\<close>

lemma gnueh_ptr_absptr:
  "plcrash_async_dwarf_read_gnueh_ptr lim mobj byteorder a DW_EH_PE_absptr state result0 size0
     uninit =
   (case pl_dwarf_read_umax64 mobj byteorder a 0 (address_size state) of
      None \<Rightarrow>
        Return \<lparr>out_ret = PLCRASH_EINVAL, out_result = result0, out_size = 0,
                out_reads = [(a, 0, unat (address_size state))]\<rparr>
    | Some v \<Rightarrow>
        Return \<lparr>out_ret = PLCRASH_ESUCCESS, out_result = v, out_size = address_size state,
                out_reads = [(a, 0, unat (address_size state))]\<rparr>)"
proof -
  have "DW_EH_PE_absptr AND DW_EH_PE_indirect = 0"
    by (simp add: DW_EH_PE_defs)
  then show ?thesis
    by (subst gnueh_ptr_direct)
      (simp_all add: gnueh_ptr_base_def gnueh_ptr_value_def DW_EH_PE_defs split: option.split)
qed

text \<open>The two switches return \<^verbatim>\<open>PLCRASH_ENOTSUP\<close> or \<^verbatim>\<open>PLCRASH_EINVAL\<close> when they return.\<close>

lemma gnueh_ptr_base_return:
  "gnueh_ptr_base lim location encoding state = Base_return err \<Longrightarrow> err = PLCRASH_ENOTSUP"
  by (auto simp: gnueh_ptr_base_def Let_def split: if_splits)

lemma gnueh_ptr_value_return:
  "gnueh_ptr_value lim mobj byteorder location encoding state base uninit = Value_return err rd
   \<Longrightarrow> err = PLCRASH_ENOTSUP \<or> err = PLCRASH_EINVAL"
  by (auto simp: gnueh_ptr_value_def Let_def plcrash_async_mobject_read_uint16_def
      plcrash_async_mobject_read_uint32_def plcrash_async_mobject_read_uint64_def
      split: if_splits option.splits sum.splits)

text \<open>Clearing the indirect flag changes neither switch.\<close>

lemma mask_indirect:
  "(encoding AND NOT DW_EH_PE_indirect) AND 0x70 = encoding AND 0x70"
  "(encoding AND NOT DW_EH_PE_indirect) AND 0x0F = encoding AND 0x0F"
  "(encoding AND NOT DW_EH_PE_indirect) AND DW_EH_PE_indirect = 0"
  by (simp_all add: DW_EH_PE_defs and.assoc)

lemma gnueh_ptr_base_indirect:
  "gnueh_ptr_base lim location (encoding AND NOT DW_EH_PE_indirect) state =
   gnueh_ptr_base lim location encoding state"
  by (simp only: gnueh_ptr_base_def mask_indirect)

lemma gnueh_ptr_value_indirect:
  "gnueh_ptr_value lim mobj byteorder location (encoding AND NOT DW_EH_PE_indirect) state base
     uninit =
   gnueh_ptr_value lim mobj byteorder location encoding state base uninit"
  by (simp only: gnueh_ptr_value_def mask_indirect)


text \<open>The equations that evaluate the decoder on a concrete input.\<close>

lemmas gnueh_ptr_eval =
  plcrash_async_dwarf_read_gnueh_ptr.simps gnueh_ptr_base_def gnueh_ptr_value_def
  DW_EH_PE_defs pl_dwarf_read_umax64_def plcrash_async_mobject_read_uint16_def
  plcrash_async_mobject_read_uint32_def plcrash_async_mobject_read_uint64_def
  plcrash_async_mobject_remap_address_def load_u8_def load_le_def direct_byteorder_def
  mach_vm_limits_def

text \<open>
  C9: for every mapping, pointer-base state and location, decoding with
  \<^verbatim>\<open>DW_EH_PE_omit\<close> returns \<^verbatim>\<open>PLCRASH_ENOTFOUND\<close>, makes no request to the mapping and
  leaves \<^verbatim>\<open>*result\<close> and \<^verbatim>\<open>*size\<close> as they were. \<^verbatim>\<open>PLCRASH_ENOTFOUND\<close> differs from
  the other codes, and the decoder returns it for no other encoding.
\<close>

theorem gnueh_ptr_omit:
  "plcrash_async_dwarf_read_gnueh_ptr lim mobj byteorder location DW_EH_PE_omit state result0
     size0 uninit =
     Return \<lparr>out_ret = PLCRASH_ENOTFOUND, out_result = result0, out_size = size0,
             out_reads = []\<rparr> \<and>
   PLCRASH_ENOTFOUND \<noteq> PLCRASH_ENOTSUP \<and> PLCRASH_ENOTFOUND \<noteq> PLCRASH_EINVAL \<and>
   PLCRASH_ENOTFOUND \<noteq> PLCRASH_ESUCCESS \<and>
   ((\<exists>d. plcrash_async_dwarf_read_gnueh_ptr lim mobj byteorder location encoding state result0
           size0 uninit = Return d \<and> out_ret d = PLCRASH_ENOTFOUND)
    = (encoding = DW_EH_PE_omit))"
proof (intro conjI)
  show "(\<exists>d. plcrash_async_dwarf_read_gnueh_ptr lim mobj byteorder location encoding state
           result0 size0 uninit = Return d \<and> out_ret d = PLCRASH_ENOTFOUND)
    = (encoding = DW_EH_PE_omit)"
  proof (cases "encoding = DW_EH_PE_omit")
    case True
    then show ?thesis by (simp add: omit_returns_not_found)
  next
    case False
    have "out_ret d \<noteq> PLCRASH_ENOTFOUND"
      if "plcrash_async_dwarf_read_gnueh_ptr lim mobj byteorder location encoding state
           result0 size0 uninit = Return d" for d
    proof (cases "encoding AND DW_EH_PE_indirect = 0")
      case True
      from that show ?thesis
        unfolding gnueh_ptr_direct [OF True]
        by (auto split: base_switch.splits value_switch.splits
            dest: gnueh_ptr_base_return gnueh_ptr_value_return)
    next
      case ind: False
      from that show ?thesis
        unfolding gnueh_ptr_indirect [OF ind False] gnueh_ptr_absptr
        by (auto split: base_switch.splits value_switch.splits option.splits
            dest: gnueh_ptr_base_return gnueh_ptr_value_return)
    qed
    with False show ?thesis by auto
  qed
qed (simp_all add: omit_returns_not_found)

text \<open>
  C8: for a pcrel, textrel, datarel or funcrel encoding whose base in the state is
  \<^verbatim>\<open>PL_VM_ADDRESS_INVALID\<close>, the decoder returns \<^verbatim>\<open>PLCRASH_ENOTSUP\<close> (which differs
  from \<^verbatim>\<open>PLCRASH_EINVAL\<close>) and makes no request to the mapping; \<^verbatim>\<open>*size\<close> has been
  set to 0 (line 127) and \<^verbatim>\<open>*result\<close> is untouched.
\<close>

theorem gnueh_ptr_missing_base:
  "(encoding AND 0x70 = DW_EH_PE_pcrel \<and> pc_rel_base state = PL_VM_ADDRESS_INVALID lim) \<or>
   (encoding AND 0x70 = DW_EH_PE_textrel \<and> text_base state = PL_VM_ADDRESS_INVALID lim) \<or>
   (encoding AND 0x70 = DW_EH_PE_datarel \<and> data_base state = PL_VM_ADDRESS_INVALID lim) \<or>
   (encoding AND 0x70 = DW_EH_PE_funcrel \<and> func_base state = PL_VM_ADDRESS_INVALID lim) \<longrightarrow>
     plcrash_async_dwarf_read_gnueh_ptr lim mobj byteorder location encoding state result0
       size0 uninit =
       Return \<lparr>out_ret = PLCRASH_ENOTSUP, out_result = result0, out_size = 0,
               out_reads = []\<rparr> \<and>
     PLCRASH_ENOTSUP \<noteq> PLCRASH_EINVAL"
proof (intro impI conjI)
  assume h: "(encoding AND 0x70 = DW_EH_PE_pcrel \<and> pc_rel_base state = PL_VM_ADDRESS_INVALID lim) \<or>
   (encoding AND 0x70 = DW_EH_PE_textrel \<and> text_base state = PL_VM_ADDRESS_INVALID lim) \<or>
   (encoding AND 0x70 = DW_EH_PE_datarel \<and> data_base state = PL_VM_ADDRESS_INVALID lim) \<or>
   (encoding AND 0x70 = DW_EH_PE_funcrel \<and> func_base state = PL_VM_ADDRESS_INVALID lim)"
  then have omit: "encoding \<noteq> DW_EH_PE_omit"
    by (auto simp: DW_EH_PE_defs)
  from h have base: "gnueh_ptr_base lim location encoding state = Base_return PLCRASH_ENOTSUP"
    by (auto simp: gnueh_ptr_base_def DW_EH_PE_defs)
  from omit base
  show "plcrash_async_dwarf_read_gnueh_ptr lim mobj byteorder location encoding state result0
       size0 uninit =
       Return \<lparr>out_ret = PLCRASH_ENOTSUP, out_result = result0, out_size = 0,
               out_reads = []\<rparr>"
    by (subst plcrash_async_dwarf_read_gnueh_ptr.simps) simp
qed simp


theorem gnueh_ptr_missing_base_witness:
  "((DW_EH_PE_pcrel OR DW_EH_PE_udata4) AND 0x70 = DW_EH_PE_pcrel \<and>
    pc_rel_base \<lparr>address_size = 8, frame_section_base = 0x1000,
                 frame_section_vm_addr = 0x1000, pc_rel_base = - 1, text_base = 0x4000,
                 data_base = 0x8000, func_base = 0x4100\<rparr>
      = PL_VM_ADDRESS_INVALID mach_vm_limits) \<and>
   plcrash_async_dwarf_read_gnueh_ptr mach_vm_limits
     \<lparr>task_address = 0x1000, mapped = [0x11, 0x22, 0x33, 0x44]\<rparr> direct_byteorder 0x1000
     (DW_EH_PE_pcrel OR DW_EH_PE_udata4)
     \<lparr>address_size = 8, frame_section_base = 0x1000, frame_section_vm_addr = 0x1000,
      pc_rel_base = - 1, text_base = 0x4000, data_base = 0x8000, func_base = 0x4100\<rparr>
     5 6 7 =
     Return \<lparr>out_ret = PLCRASH_ENOTSUP, out_result = 5, out_size = 0, out_reads = []\<rparr>"
proof -
  let ?st = "\<lparr>address_size = 8, frame_section_base = 0x1000, frame_section_vm_addr = 0x1000,
      pc_rel_base = - 1, text_base = 0x4000, data_base = 0x8000, func_base = 0x4100\<rparr>"
  have h: "(DW_EH_PE_pcrel OR DW_EH_PE_udata4) AND 0x70 = DW_EH_PE_pcrel \<and>
    pc_rel_base ?st = PL_VM_ADDRESS_INVALID mach_vm_limits"
    by (simp add: DW_EH_PE_defs mach_vm_limits_def)
  from gnueh_ptr_missing_base [rule_format, OF disjI1, OF h] h
  show ?thesis by simp
qed

text \<open>
  C3: for an encoding with the indirect flag set (other than \<^verbatim>\<open>DW_EH_PE_omit\<close>), the
  decoder first does what it does for the same encoding without the flag; if that
  succeeds with value \<open>v\<close>, it calls itself once at \<open>v\<close> with \<^verbatim>\<open>DW_EH_PE_absptr\<close> and the
  same state, and returns that call's code and value with the size of the first decode
  only. The \<^verbatim>\<open>DW_EH_PE_absptr\<close> call is one fixed-width read of \<^verbatim>\<open>address_size\<close> bytes
  and calls nothing further. In particular, for \<^verbatim>\<open>absptr|indirect\<close> at \<open>L\<close> with
  address size 8, where the 8 bytes at \<open>L\<close> decode to \<open>A\<close> and the 8 bytes at \<open>A\<close> to
  \<open>B\<close>, the decoder returns \<open>B\<close> with size 8.
\<close>

theorem gnueh_ptr_indirection:
  "(encoding AND DW_EH_PE_indirect \<noteq> 0 \<and> encoding \<noteq> DW_EH_PE_omit \<longrightarrow>
      plcrash_async_dwarf_read_gnueh_ptr lim mobj byteorder location encoding state result0
        size0 uninit =
      (case plcrash_async_dwarf_read_gnueh_ptr lim mobj byteorder location
              (encoding AND NOT DW_EH_PE_indirect) state result0 size0 uninit of
         Assert_failed \<Rightarrow> Assert_failed
       | Return d \<Rightarrow>
           if out_ret d = PLCRASH_ESUCCESS
           then (case plcrash_async_dwarf_read_gnueh_ptr lim mobj byteorder (out_result d)
                        DW_EH_PE_absptr state (out_result d) uninit uninit of
                   Assert_failed \<Rightarrow> Assert_failed
                 | Return t \<Rightarrow>
                     Return \<lparr>out_ret = out_ret t, out_result = out_result t,
                             out_size = out_size d, out_reads = out_reads d @ out_reads t\<rparr>)
           else Return d)) \<and>
   plcrash_async_dwarf_read_gnueh_ptr lim mobj byteorder a DW_EH_PE_absptr state result0 size0
     uninit =
     (case pl_dwarf_read_umax64 mobj byteorder a 0 (address_size state) of
        None \<Rightarrow>
          Return \<lparr>out_ret = PLCRASH_EINVAL, out_result = result0, out_size = 0,
                  out_reads = [(a, 0, unat (address_size state))]\<rparr>
      | Some v \<Rightarrow>
          Return \<lparr>out_ret = PLCRASH_ESUCCESS, out_result = v, out_size = address_size state,
                  out_reads = [(a, 0, unat (address_size state))]\<rparr>) \<and>
   (address_size state = 8 \<and>
    pl_dwarf_read_umax64 mobj byteorder L 0 8 = Some A \<and>
    pl_dwarf_read_umax64 mobj byteorder A 0 8 = Some B \<longrightarrow>
      plcrash_async_dwarf_read_gnueh_ptr lim mobj byteorder L
        (DW_EH_PE_absptr OR DW_EH_PE_indirect) state result0 size0 uninit =
      Return \<lparr>out_ret = PLCRASH_ESUCCESS, out_result = B, out_size = 8,
              out_reads = [(L, 0, 8), (A, 0, 8)]\<rparr>)"
proof (intro conjI impI)
  assume h: "encoding AND DW_EH_PE_indirect \<noteq> 0 \<and> encoding \<noteq> DW_EH_PE_omit"
  have direct: "(encoding AND NOT DW_EH_PE_indirect) AND DW_EH_PE_indirect = 0"
    by (rule mask_indirect)
  show "plcrash_async_dwarf_read_gnueh_ptr lim mobj byteorder location encoding state result0
        size0 uninit =
      (case plcrash_async_dwarf_read_gnueh_ptr lim mobj byteorder location
              (encoding AND NOT DW_EH_PE_indirect) state result0 size0 uninit of
         Assert_failed \<Rightarrow> Assert_failed
       | Return d \<Rightarrow>
           if out_ret d = PLCRASH_ESUCCESS
           then (case plcrash_async_dwarf_read_gnueh_ptr lim mobj byteorder (out_result d)
                        DW_EH_PE_absptr state (out_result d) uninit uninit of
                   Assert_failed \<Rightarrow> Assert_failed
                 | Return t \<Rightarrow>
                     Return \<lparr>out_ret = out_ret t, out_result = out_result t,
                             out_size = out_size d, out_reads = out_reads d @ out_reads t\<rparr>)
           else Return d)"
    unfolding gnueh_ptr_direct [OF direct] gnueh_ptr_base_indirect gnueh_ptr_value_indirect
    using h
    by (subst gnueh_ptr_indirect)
      (auto split: base_switch.splits value_switch.splits completion.splits
        dest: gnueh_ptr_base_return gnueh_ptr_value_return)
next
  show "plcrash_async_dwarf_read_gnueh_ptr lim mobj byteorder a DW_EH_PE_absptr state result0
      size0 uninit =
     (case pl_dwarf_read_umax64 mobj byteorder a 0 (address_size state) of
        None \<Rightarrow>
          Return \<lparr>out_ret = PLCRASH_EINVAL, out_result = result0, out_size = 0,
                  out_reads = [(a, 0, unat (address_size state))]\<rparr>
      | Some v \<Rightarrow>
          Return \<lparr>out_ret = PLCRASH_ESUCCESS, out_result = v, out_size = address_size state,
                  out_reads = [(a, 0, unat (address_size state))]\<rparr>)"
    by (rule gnueh_ptr_absptr)
next
  assume h: "address_size state = 8 \<and>
    pl_dwarf_read_umax64 mobj byteorder L 0 8 = Some A \<and>
    pl_dwarf_read_umax64 mobj byteorder A 0 8 = Some B"
  have ind: "(DW_EH_PE_absptr OR DW_EH_PE_indirect) AND DW_EH_PE_indirect \<noteq> 0"
    "DW_EH_PE_absptr OR DW_EH_PE_indirect \<noteq> DW_EH_PE_omit"
    by (simp_all add: DW_EH_PE_defs)
  have base: "gnueh_ptr_base lim L (DW_EH_PE_absptr OR DW_EH_PE_indirect) state =
      Base_break 0 L 0"
    by (simp add: gnueh_ptr_base_def DW_EH_PE_defs)
  from h have val: "gnueh_ptr_value lim mobj byteorder L (DW_EH_PE_absptr OR DW_EH_PE_indirect)
      state 0 uninit = Value_break A 8 [(L, 0, 8)]"
    by (simp add: gnueh_ptr_value_def DW_EH_PE_defs)
  from h show "plcrash_async_dwarf_read_gnueh_ptr lim mobj byteorder L
        (DW_EH_PE_absptr OR DW_EH_PE_indirect) state result0 size0 uninit =
      Return \<lparr>out_ret = PLCRASH_ESUCCESS, out_result = B, out_size = 8,
              out_reads = [(L, 0, 8), (A, 0, 8)]\<rparr>"
    by (simp add: gnueh_ptr_indirect [OF ind] base val gnueh_ptr_absptr)
qed


theorem gnueh_ptr_indirection_witness:
  "(DW_EH_PE_absptr OR DW_EH_PE_indirect) AND DW_EH_PE_indirect \<noteq> 0 \<and>
   DW_EH_PE_absptr OR DW_EH_PE_indirect \<noteq> DW_EH_PE_omit \<and>
   address_size \<lparr>address_size = 8, frame_section_base = - 1, frame_section_vm_addr = - 1,
                  pc_rel_base = - 1, text_base = - 1, data_base = - 1, func_base = - 1\<rparr> = 8 \<and>
   pl_dwarf_read_umax64
     \<lparr>task_address = 0x1000,
      mapped = [0x08, 0x10, 0, 0, 0, 0, 0, 0, 0x88, 0x77, 0x66, 0x55, 0x44, 0x33, 0x22, 0x11]\<rparr>
     direct_byteorder 0x1000 0 8 = Some 0x1008 \<and>
   pl_dwarf_read_umax64
     \<lparr>task_address = 0x1000,
      mapped = [0x08, 0x10, 0, 0, 0, 0, 0, 0, 0x88, 0x77, 0x66, 0x55, 0x44, 0x33, 0x22, 0x11]\<rparr>
     direct_byteorder 0x1008 0 8 = Some 0x1122334455667788 \<and>
   plcrash_async_dwarf_read_gnueh_ptr mach_vm_limits
     \<lparr>task_address = 0x1000,
      mapped = [0x08, 0x10, 0, 0, 0, 0, 0, 0, 0x88, 0x77, 0x66, 0x55, 0x44, 0x33, 0x22, 0x11]\<rparr>
     direct_byteorder 0x1000 (DW_EH_PE_absptr OR DW_EH_PE_indirect)
     \<lparr>address_size = 8, frame_section_base = - 1, frame_section_vm_addr = - 1,
      pc_rel_base = - 1, text_base = - 1, data_base = - 1, func_base = - 1\<rparr> 5 6 7 =
     Return \<lparr>out_ret = PLCRASH_ESUCCESS, out_result = 0x1122334455667788, out_size = 8,
             out_reads = [(0x1000, 0, 8), (0x1008, 0, 8)]\<rparr>"
proof -
  let ?m = "\<lparr>task_address = 0x1000,
      mapped = [0x08, 0x10, 0, 0, 0, 0, 0, 0, 0x88, 0x77, 0x66, 0x55, 0x44, 0x33, 0x22, 0x11]\<rparr>"
  let ?st = "\<lparr>address_size = 8, frame_section_base = - 1, frame_section_vm_addr = - 1,
      pc_rel_base = - 1, text_base = - 1, data_base = - 1, func_base = - 1\<rparr>"
  have flag: "(DW_EH_PE_absptr OR DW_EH_PE_indirect) AND DW_EH_PE_indirect \<noteq> 0 \<and>
      DW_EH_PE_absptr OR DW_EH_PE_indirect \<noteq> DW_EH_PE_omit"
    by (simp add: DW_EH_PE_defs)
  have h: "address_size ?st = 8 \<and>
      pl_dwarf_read_umax64 ?m direct_byteorder 0x1000 0 8 = Some 0x1008 \<and>
      pl_dwarf_read_umax64 ?m direct_byteorder 0x1008 0 8 = Some 0x1122334455667788"
    by (simp add: pl_dwarf_read_umax64_def plcrash_async_mobject_remap_address_def load_le_def
        direct_byteorder_def)
  note t = gnueh_ptr_indirection [of "DW_EH_PE_absptr OR DW_EH_PE_indirect" mach_vm_limits ?m
      direct_byteorder "0x1000" ?st 5 6 7 "0x1000" "0x1000" "0x1008" "0x1122334455667788"]
  from t [THEN conjunct2, THEN conjunct2, rule_format, OF h] flag h
  show ?thesis by simp
qed

text \<open>
  C1 (the code departs from the claim): the return values of the two LEB128 calls are
  assigned to \<^verbatim>\<open>err\<close> and never tested. On a mapping that ends after the byte 0x85 the
  LEB128 decoders return \<^verbatim>\<open>PLCRASH_EINVAL\<close>, and the pointer decoder returns
  \<^verbatim>\<open>PLCRASH_ESUCCESS\<close> with the partial value 5 and the indeterminate content of the
  local \<^verbatim>\<open>uleb_size\<close> (\<^verbatim>\<open>sleb_size\<close>) as size. On ten continuation bytes the ULEB128
  decoder returns \<^verbatim>\<open>PLCRASH_ENOTSUP\<close> and the pointer decoder succeeds likewise.
\<close>

theorem gnueh_ptr_leb128_error_lost:
  "out_ret (plcrash_async_dwarf_read_uleb128 \<lparr>task_address = 0x1000, mapped = [0x85]\<rparr>
     0x1000 uninit) = PLCRASH_EINVAL \<and>
   plcrash_async_dwarf_read_gnueh_ptr mach_vm_limits \<lparr>task_address = 0x1000, mapped = [0x85]\<rparr>
     direct_byteorder 0x1000 DW_EH_PE_uleb128
     \<lparr>address_size = 8, frame_section_base = - 1, frame_section_vm_addr = - 1,
      pc_rel_base = - 1, text_base = - 1, data_base = - 1, func_base = - 1\<rparr>
     result0 size0 uninit =
     Return \<lparr>out_ret = PLCRASH_ESUCCESS, out_result = 5, out_size = uninit,
             out_reads = [(0x1000, 0, 1), (0x1000, 1, 1)]\<rparr> \<and>
   out_ret (plcrash_async_dwarf_read_sleb128 \<lparr>task_address = 0x1000, mapped = [0x85]\<rparr>
     0x1000 uninit) = PLCRASH_EINVAL \<and>
   plcrash_async_dwarf_read_gnueh_ptr mach_vm_limits \<lparr>task_address = 0x1000, mapped = [0x85]\<rparr>
     direct_byteorder 0x1000 DW_EH_PE_sleb128
     \<lparr>address_size = 8, frame_section_base = - 1, frame_section_vm_addr = - 1,
      pc_rel_base = - 1, text_base = - 1, data_base = - 1, func_base = - 1\<rparr>
     result0 size0 uninit =
     Return \<lparr>out_ret = PLCRASH_ESUCCESS, out_result = 5, out_size = uninit,
             out_reads = [(0x1000, 0, 1), (0x1000, 1, 1)]\<rparr> \<and>
   out_ret (plcrash_async_dwarf_read_uleb128
     \<lparr>task_address = 0x1000,
      mapped = [0x80, 0x80, 0x80, 0x80, 0x80, 0x80, 0x80, 0x80, 0x80, 0x80, 0x00]\<rparr>
     0x1000 uninit) = PLCRASH_ENOTSUP \<and>
   (case plcrash_async_dwarf_read_gnueh_ptr mach_vm_limits
      \<lparr>task_address = 0x1000,
       mapped = [0x80, 0x80, 0x80, 0x80, 0x80, 0x80, 0x80, 0x80, 0x80, 0x80, 0x00]\<rparr>
      direct_byteorder 0x1000 DW_EH_PE_uleb128
      \<lparr>address_size = 8, frame_section_base = - 1, frame_section_vm_addr = - 1,
       pc_rel_base = - 1, text_base = - 1, data_base = - 1, func_base = - 1\<rparr>
      result0 size0 uninit of
      Assert_failed \<Rightarrow> False
    | Return d \<Rightarrow> out_ret d = PLCRASH_ESUCCESS \<and> out_result d = 0 \<and> out_size d = uninit)"
  by (simp add: gnueh_ptr_eval plcrash_async_dwarf_read_uleb128_def
      plcrash_async_dwarf_read_sleb128_def uleb128_loop.simps sleb128_loop.simps)

text \<open>
  C2 (the code departs from the claim): the mask of line 187 is \<^verbatim>\<open>~address_size\<close>, not
  \<^verbatim>\<open>~(address_size - 1)\<close>. With both section addresses 0x1000, address size 4 and
  location 0x1001, the "aligned" address is 0x1000 (the conventional mask gives 0x1004),
  the padding is -1, the four bytes are read at 0x1000 and the size returned is 3. The
  two masks differ for each of the address sizes 1, 2, 4 and 8.
\<close>

theorem gnueh_ptr_aligned_mask:
  "plcrash_async_dwarf_read_gnueh_ptr mach_vm_limits
     \<lparr>task_address = 0x1000, mapped = [0x11, 0x22, 0x33, 0x44, 0x55, 0x66, 0x77, 0x88]\<rparr>
     direct_byteorder 0x1001 (DW_EH_PE_aligned OR DW_EH_PE_absptr)
     \<lparr>address_size = 4, frame_section_base = 0x1000, frame_section_vm_addr = 0x1000,
      pc_rel_base = - 1, text_base = - 1, data_base = - 1, func_base = - 1\<rparr>
     result0 size0 uninit =
     Return \<lparr>out_ret = PLCRASH_ESUCCESS, out_result = 0x44332211, out_size = 3,
             out_reads = [(0x1000, 0, 4)]\<rparr> \<and>
   gnueh_ptr_base mach_vm_limits 0x1001 (DW_EH_PE_aligned OR DW_EH_PE_absptr)
     \<lparr>address_size = 4, frame_section_base = 0x1000, frame_section_vm_addr = 0x1000,
      pc_rel_base = - 1, text_base = - 1, data_base = - 1, func_base = - 1\<rparr> =
     Base_break 0 0x1000 (- 1) \<and>
   (0x1001 + (4 - 1)) AND NOT 4 = (0x1000 :: 64 word) \<and>
   (0x1001 + (4 - 1)) AND NOT (4 - 1) = (0x1004 :: 64 word) \<and>
   gnueh_ptr_base mach_vm_limits 1 DW_EH_PE_aligned
     \<lparr>address_size = 1, frame_section_base = 0, frame_section_vm_addr = 0,
      pc_rel_base = - 1, text_base = - 1, data_base = - 1, func_base = - 1\<rparr> =
     Base_break 0 0 (- 1) \<and>
   gnueh_ptr_base mach_vm_limits 0 DW_EH_PE_aligned
     \<lparr>address_size = 2, frame_section_base = 0, frame_section_vm_addr = 0,
      pc_rel_base = - 1, text_base = - 1, data_base = - 1, func_base = - 1\<rparr> =
     Base_break 0 1 1 \<and>
   gnueh_ptr_base mach_vm_limits 0 DW_EH_PE_aligned
     \<lparr>address_size = 8, frame_section_base = 0, frame_section_vm_addr = 0,
      pc_rel_base = - 1, text_base = - 1, data_base = - 1, func_base = - 1\<rparr> =
     Base_break 0 7 7"
  by (simp add: gnueh_ptr_eval)


end
